theory Spec2Isabelle
  imports Main "HOL-Library.Sublist"
begin

section \<open>JavaScript values\<close>

text \<open>
  The translation files are JSON, so the values the library handles are JSON data:
  \<open>response.json()\<close> and \<open>JSON.parse\<close> produce nothing else. A string is a list of
  code units (\<open>char\<close> stands for one code unit); the operations of the library that look
  inside a string (\<open>split('.')\<close>, \<open>includes('<')\<close>, the pattern \<open>{{\w+}}\<close>) only
  compare code units with ASCII characters. Numbers are restricted to the integers
  that are printed digit by digit (absolute value below \<open>2 ^ 53\<close>).
  An object is the list of its members, with distinct names as in every object
  \<open>JSON.parse\<close> yields; \<open>map_of\<close> reads a member.
\<close>

datatype json =
    JNull
  | JBool bool
  | JNum int
  | JStr string
  | JArr "json list"
  | JObj "(string \<times> json) list"

text \<open>
  Reading a property of a JSON value can leave the data: \<open>k in value\<close> and \<open>value[k]\<close>
  follow the prototype chain, so a name such as \<open>toString\<close> or \<open>constructor\<close> is found
  on every object although no translation file mentions it. The values reached that way
  are the built-in prototype objects and their functions.
\<close>

datatype proto =
    ObjectPrototype
  | ArrayPrototype
  | StringPrototype
  | NumberPrototype
  | BooleanPrototype
  | FunctionPrototype

datatype jsval =
    Undefined
  | Data json
  | Proto proto
  | Method proto string
  | Constructor proto

datatype jstype = TUndefined | TObject | TBoolean | TNumber | TString | TFunction

datatype error = TypeError

fun typeof :: "jsval \<Rightarrow> jstype" where
  "typeof Undefined = TUndefined"
| "typeof (Data JNull) = TObject"
| "typeof (Data (JBool b)) = TBoolean"
| "typeof (Data (JNum n)) = TNumber"
| "typeof (Data (JStr s)) = TString"
| "typeof (Data (JArr xs)) = TObject"
| "typeof (Data (JObj kvs)) = TObject"
| "typeof (Proto FunctionPrototype) = TFunction"
| "typeof (Proto p) = TObject"
| "typeof (Method p k) = TFunction"
| "typeof (Constructor p) = TFunction"

text \<open>Truthiness, as \<open>if (v)\<close>, \<open>v && ...\<close> and \<open>v || ...\<close> test it.\<close>

fun truthy :: "jsval \<Rightarrow> bool" where
  "truthy Undefined = False"
| "truthy (Data JNull) = False"
| "truthy (Data (JBool b)) = b"
| "truthy (Data (JNum n)) = (n \<noteq> 0)"
| "truthy (Data (JStr s)) = (s \<noteq> [])"
| "truthy (Data (JArr xs)) = True"
| "truthy (Data (JObj kvs)) = True"
| "truthy (Proto p) = True"
| "truthy (Method p k) = True"
| "truthy (Constructor p) = True"

subsection \<open>Decimal numerals\<close>

definition digit_char :: "nat \<Rightarrow> char" where
  "digit_char d = char_of (48 + d)"

function show_nat :: "nat \<Rightarrow> string" where
  "show_nat n = (if n < 10 then [digit_char n] else show_nat (n div 10) @ [digit_char (n mod 10)])"
  by pat_completeness auto
termination
  by (relation "measure id") auto
declare show_nat.simps [simp del]

definition show_int :: "int \<Rightarrow> string" where
  "show_int i = (if i < 0 then CHR ''-'' # show_nat (nat (- i)) else show_nat (nat i))"

subsection \<open>Properties and the prototype chain\<close>

text \<open>
  The string-named properties of the built-in prototypes (ECMAScript 2023 with its
  Annex B). \<open>constructor\<close> and the accessor \<open>__proto__\<close> are handled apart.
\<close>

fun proto_methods :: "proto \<Rightarrow> string list" where
  "proto_methods ObjectPrototype =
     [''__defineGetter__'', ''__defineSetter__'', ''hasOwnProperty'', ''__lookupGetter__'',
      ''__lookupSetter__'', ''isPrototypeOf'', ''propertyIsEnumerable'', ''toString'',
      ''valueOf'', ''toLocaleString'']"
| "proto_methods ArrayPrototype =
     [''at'', ''concat'', ''copyWithin'', ''fill'', ''find'', ''findIndex'', ''findLast'',
      ''findLastIndex'', ''lastIndexOf'', ''pop'', ''push'', ''reverse'', ''shift'',
      ''unshift'', ''slice'', ''sort'', ''splice'', ''includes'', ''indexOf'', ''join'',
      ''keys'', ''entries'', ''values'', ''forEach'', ''filter'', ''flat'', ''flatMap'',
      ''map'', ''every'', ''some'', ''reduce'', ''reduceRight'', ''toLocaleString'',
      ''toString'', ''toReversed'', ''toSorted'', ''toSpliced'', ''with'']"
| "proto_methods StringPrototype =
     [''anchor'', ''at'', ''big'', ''blink'', ''bold'', ''charAt'', ''charCodeAt'',
      ''codePointAt'', ''concat'', ''endsWith'', ''fontcolor'', ''fontsize'', ''fixed'',
      ''includes'', ''indexOf'', ''isWellFormed'', ''italics'', ''lastIndexOf'', ''link'',
      ''localeCompare'', ''match'', ''matchAll'', ''normalize'', ''padEnd'', ''padStart'',
      ''repeat'', ''replace'', ''replaceAll'', ''search'', ''slice'', ''small'', ''split'',
      ''strike'', ''sub'', ''substr'', ''substring'', ''startsWith'', ''sup'', ''toString'',
      ''trim'', ''trimStart'', ''trimLeft'', ''trimEnd'', ''trimRight'',
      ''toLocaleLowerCase'', ''toLocaleUpperCase'', ''toLowerCase'', ''toUpperCase'',
      ''toWellFormed'', ''valueOf'']"
| "proto_methods NumberPrototype =
     [''toExponential'', ''toFixed'', ''toLocaleString'', ''toPrecision'', ''toString'',
      ''valueOf'']"
| "proto_methods BooleanPrototype = [''toString'', ''valueOf'']"
| "proto_methods FunctionPrototype = [''apply'', ''bind'', ''call'', ''toString'']"

text \<open>The data properties a prototype object holds itself.\<close>

fun proto_fields :: "proto \<Rightarrow> (string \<times> json) list" where
  "proto_fields ArrayPrototype = [(''length'', JNum 0)]"
| "proto_fields StringPrototype = [(''length'', JNum 0)]"
| "proto_fields FunctionPrototype = [(''length'', JNum 0), (''name'', JStr [])]"
| "proto_fields p = []"

definition proto_own :: "proto \<Rightarrow> string \<Rightarrow> jsval option" where
  "proto_own p k =
     (if k = ''constructor'' then Some (Constructor p)
      else if k \<in> set (proto_methods p) then Some (Method p k)
      else map_option Data (map_of (proto_fields p) k))"

fun proto_parent :: "proto \<Rightarrow> proto option" where
  "proto_parent ObjectPrototype = None"
| "proto_parent p = Some ObjectPrototype"

definition proto_chain :: "proto \<Rightarrow> string \<Rightarrow> jsval option" where
  "proto_chain p k =
     (case proto_own p k of
        Some v \<Rightarrow> Some v
      | None \<Rightarrow> (case proto_parent p of None \<Rightarrow> None | Some q \<Rightarrow> proto_own q k))"

text \<open>The prototype of a value (of its wrapper object, for a primitive).\<close>

fun proto_of :: "jsval \<Rightarrow> proto option" where
  "proto_of (Data (JObj kvs)) = Some ObjectPrototype"
| "proto_of (Data (JArr xs)) = Some ArrayPrototype"
| "proto_of (Data (JStr s)) = Some StringPrototype"
| "proto_of (Data (JNum n)) = Some NumberPrototype"
| "proto_of (Data (JBool b)) = Some BooleanPrototype"
| "proto_of (Proto p) = proto_parent p"
| "proto_of (Method p k) = Some FunctionPrototype"
| "proto_of (Constructor p) = Some FunctionPrototype"
| "proto_of v = None"

definition indexed :: "'a list \<Rightarrow> (string \<times> 'a) list" where
  "indexed xs = zip (map show_nat [0..<length xs]) xs"

text \<open>
  The properties a value holds itself: the members of an object, the elements and the
  length of an array or a string. The program never reads a property of a function.
\<close>

fun own_property :: "jsval \<Rightarrow> string \<Rightarrow> jsval option" where
  "own_property (Data (JObj kvs)) k = map_option Data (map_of kvs k)"
| "own_property (Data (JArr xs)) k =
     (if k = ''length'' then Some (Data (JNum (int (length xs))))
      else map_option Data (map_of (indexed xs) k))"
| "own_property (Data (JStr s)) k =
     (if k = ''length'' then Some (Data (JNum (int (length s))))
      else map_option (\<lambda>c. Data (JStr [c])) (map_of (indexed s) k))"
| "own_property (Proto p) k = proto_own p k"
| "own_property v k = None"

text \<open>
  Property lookup along the chain; \<open>None\<close> when no object of the chain has the name.
  \<open>__proto__\<close> is the accessor of \<open>Object.prototype\<close>: it yields the prototype of the value
  it is read from.
\<close>

definition lookup_property :: "jsval \<Rightarrow> string \<Rightarrow> jsval option" where
  "lookup_property v k =
     (case own_property v k of
        Some x \<Rightarrow> Some x
      | None \<Rightarrow>
          if k = ''__proto__''
          then Some (case proto_of v of Some p \<Rightarrow> Proto p | None \<Rightarrow> Data JNull)
          else (case proto_of v of None \<Rightarrow> None | Some p \<Rightarrow> proto_chain p k))"

text \<open>\<open>k in v\<close>, for an object \<open>v\<close>.\<close>

definition has_property :: "jsval \<Rightarrow> string \<Rightarrow> bool" where
  "has_property v k = (lookup_property v k \<noteq> None)"

text \<open>\<open>v[k]\<close>: a \<open>TypeError\<close> on \<open>null\<close> and \<open>undefined\<close>, \<open>undefined\<close> for a missing name.\<close>

definition get_property :: "jsval \<Rightarrow> string \<Rightarrow> error + jsval" where
  "get_property v k =
     (if v = Undefined \<or> v = Data JNull then Inl TypeError
      else Inr (case lookup_property v k of Some x \<Rightarrow> x | None \<Rightarrow> Undefined))"

subsection \<open>Conversion to a string\<close>

fun intercalate :: "string \<Rightarrow> string list \<Rightarrow> string" where
  "intercalate sep [] = []"
| "intercalate sep [x] = x"
| "intercalate sep (x # y # ys) = x @ sep @ intercalate sep (y # ys)"

text \<open>
  \<open>ToString\<close> on JSON data; \<open>None\<close> is the \<open>TypeError\<close> of an object that cannot be
  converted. An object is converted by its \<open>toString\<close>: the inherited one gives
  \<open>[object Object]\<close>, but a member of that name is JSON data, not a function, and then
  neither it nor \<open>valueOf\<close> yields a primitive. An array joins its elements with commas,
  \<open>null\<close> elements as the empty string.
\<close>

fun json_to_string :: "json \<Rightarrow> string option" where
  "json_to_string JNull = Some ''null''"
| "json_to_string (JBool b) = Some (if b then ''true'' else ''false'')"
| "json_to_string (JNum n) = Some (show_int n)"
| "json_to_string (JStr s) = Some s"
| "json_to_string (JArr xs) =
     map_option (intercalate '','')
       (those (map (\<lambda>x. if x = JNull then Some [] else json_to_string x) xs))"
| "json_to_string (JObj kvs) =
     (if map_of kvs ''toString'' = None then Some ''[object Object]'' else None)"

text \<open>The name a built-in constructor function carries.\<close>

fun constructor_name :: "proto \<Rightarrow> string" where
  "constructor_name ObjectPrototype = ''Object''"
| "constructor_name ArrayPrototype = ''Array''"
| "constructor_name StringPrototype = ''String''"
| "constructor_name NumberPrototype = ''Number''"
| "constructor_name BooleanPrototype = ''Boolean''"
| "constructor_name FunctionPrototype = ''Function''"

text \<open>
  The name a built-in method carries: the property name, except for the two aliases
  \<open>trimLeft\<close> and \<open>trimRight\<close>, which are the functions \<open>trimStart\<close> and \<open>trimEnd\<close>.
\<close>

fun function_name :: "proto \<Rightarrow> string \<Rightarrow> string" where
  "function_name StringPrototype k =
     (if k = ''trimLeft'' then ''trimStart'' else if k = ''trimRight'' then ''trimEnd'' else k)"
| "function_name p k = k"

text \<open>
  The source text of a built-in function is implementation-defined; this is the form
  V8 and JavaScriptCore print.
\<close>

definition native_source :: "string \<Rightarrow> string" where
  "native_source name = ''function '' @ name @ ''() { [native code] }''"

fun to_string :: "jsval \<Rightarrow> error + string" where
  "to_string Undefined = Inr ''undefined''"
| "to_string (Data d) = (case json_to_string d of Some s \<Rightarrow> Inr s | None \<Rightarrow> Inl TypeError)"
| "to_string (Proto ObjectPrototype) = Inr ''[object Object]''"
| "to_string (Proto ArrayPrototype) = Inr []"
| "to_string (Proto StringPrototype) = Inr []"
| "to_string (Proto NumberPrototype) = Inr ''0''"
| "to_string (Proto BooleanPrototype) = Inr ''false''"
| "to_string (Proto FunctionPrototype) = Inr (native_source [])"
| "to_string (Method p k) = Inr (native_source (function_name p k))"
| "to_string (Constructor p) = Inr (native_source (constructor_name p))"

section \<open>The page and the \<open>I18n\<close> object\<close>

text \<open>
  What an element shows: the last assignment to \<open>textContent\<close> (plain text) or to
  \<open>innerHTML\<close> (markup).
\<close>

datatype content = PlainText string | Markup string

text \<open>
  An element of the document, with the attributes the library reads
  (\<open>data-i18n\<close>, \<open>data-i18n-vars\<close>, \<open>data-i18n-placeholder\<close>, \<open>data-i18n-alt\<close>,
  \<open>data-i18n-title\<close>; \<open>None\<close> when the attribute is absent) and what it writes. The fields
  \<open>placeholder\<close>, \<open>alt\<close> and \<open>title\<close> hold the string \<open>setAttribute\<close> stored last. The
  document is the list of its elements in document order; markup assigned to an element
  is not parsed for further marked elements.
\<close>

record element =
  i18n_key :: "string option"
  i18n_vars :: "string option"
  i18n_placeholder :: "string option"
  i18n_alt :: "string option"
  i18n_title :: "string option"
  content :: content
  placeholder :: "string option"
  alt :: "string option"
  title :: "string option"

text \<open>The lines written to the console, by \<open>console.error\<close> and \<open>console.warn\<close>.\<close>

datatype diagnostic =
    ErrorLoading string
  | WarnFallingBack string
  | WarnNotSupported string
  | ErrorParsingVars string
  | WarnNotAString string jsval
  | WarnKeyNotFound string
  | WarnUnableToSave
  | WarnUrlRead
  | WarnUrlUpdate

text \<open>
  What \<open>fetch\<close> gives for a path: a rejected promise, or a response with its \<open>ok\<close> flag
  and the result of \<open>response.json()\<close> (\<open>None\<close> when the body is not JSON).
\<close>

datatype response = NetworkError | Response bool "json option"

text \<open>
  The state: the fields of the \<open>I18n\<close> object, then the browser around it. The flags
  \<open>getItemThrows\<close>, \<open>setItemThrows\<close>, \<open>urlReadThrows\<close> and \<open>urlWriteThrows\<close> say whether the
  storage and URL calls inside the \<open>try\<close> blocks raise. \<open>urlLang\<close> is the value of the
  \<open>lang\<close> query parameter, \<open>requests\<close> the paths fetched so far, \<open>events\<close> the languages
  carried by the \<open>languageChanged\<close> events dispatched so far, \<open>jsonParse\<close> is \<open>JSON.parse\<close>
  (\<open>None\<close> for a \<open>SyntaxError\<close>). The field \<open>this.translations\<close> is named
  \<open>translationTree\<close> here.
\<close>

record world =
  currentLang :: string
  defaultLang :: string
  translationTree :: json
  supportedLanguages :: "string list"
  storageKey :: string
  localStorage :: "string \<Rightarrow> string option"
  getItemThrows :: bool
  setItemThrows :: bool
  urlLang :: "string option"
  urlReadThrows :: bool
  urlWriteThrows :: bool
  navigatorLanguage :: "string option"
  navigatorUserLanguage :: "string option"
  server :: "string \<Rightarrow> response"
  requests :: "string list"
  jsonParse :: "string \<Rightarrow> json option"
  htmlLang :: "string option"
  bodyOpacity :: "string option"
  bodyClasses :: "string list"
  elements :: "element list"
  console :: "diagnostic list"
  events :: "string list"

text \<open>The constructor sets the five fields of the object.\<close>

definition constructor :: "world \<Rightarrow> world" where
  "constructor w =
     w\<lparr>currentLang := ''en'',
       defaultLang := ''en'',
       translationTree := JObj [],
       supportedLanguages := [''en'', ''zh-TW'', ''zh-CN''],
       storageKey := ''mezzofy_language''\<rparr>"

definition log :: "diagnostic \<Rightarrow> world \<Rightarrow> world" where
  "log d w = w\<lparr>console := console w @ [d]\<rparr>"

section \<open>Loading translations\<close>

definition translationPath :: "string \<Rightarrow> string" where
  "translationPath lang = ''i18n/translations/'' @ lang @ ''.json''"

text \<open>
  The tree a fetch of \<open>lang\<close> yields: \<open>None\<close> when the promise is rejected, the response
  is not \<open>ok\<close>, or its body does not parse. All three end in the \<open>catch\<close> block. One
  call of \<open>loadTranslations\<close> fetches a path at most once (the language asked for, then
  the default language only if it is another one), so a server that answers by path
  covers every course a call can take.
\<close>

definition fetched :: "world \<Rightarrow> string \<Rightarrow> json option" where
  "fetched w lang =
     (case server w (translationPath lang) of
        NetworkError \<Rightarrow> None
      | Response ok body \<Rightarrow> if ok then body else None)"

function loadTranslations :: "world \<Rightarrow> string \<Rightarrow> world \<times> bool" where
  "loadTranslations w lang =
     (let w1 = w\<lparr>requests := requests w @ [translationPath lang]\<rparr> in
      case fetched w lang of
        Some tree \<Rightarrow> (w1\<lparr>translationTree := tree\<rparr>, True)
      | None \<Rightarrow>
          (let w2 = log (ErrorLoading lang) w1 in
           if lang \<noteq> defaultLang w
           then loadTranslations (log (WarnFallingBack (defaultLang w)) w2) (defaultLang w)
           else (w2, False)))"
  by pat_completeness auto
termination
  by (relation "measure (\<lambda>(w, lang). if lang = defaultLang w then 0 else 1)")
     (auto simp: log_def)
declare loadTranslations.simps [simp del]

section \<open>Looking a key up\<close>

text \<open>\<open>s.split(c)\<close>: the pieces between the occurrences of \<open>c\<close>, at least one piece.\<close>

fun split :: "char \<Rightarrow> string \<Rightarrow> string list" where
  "split c [] = [[]]"
| "split c (x # xs) =
     (if x = c then [] # split c xs
      else (case split c xs of [] \<Rightarrow> [[x]] | p # ps \<Rightarrow> (x # p) # ps))"

text \<open>
  The loop of \<open>getTranslation\<close> over the segments: \<open>None\<close> when it leaves through the
  \<open>else\<close> branch, the value reached otherwise.
\<close>

fun walk :: "jsval \<Rightarrow> string list \<Rightarrow> jsval option" where
  "walk v [] = Some v"
| "walk v (k # ks) =
     (if truthy v \<and> typeof v = TObject \<and> has_property v k
      then (case get_property v k of Inl e \<Rightarrow> None | Inr v' \<Rightarrow> walk v' ks)
      else None)"

definition getTranslation :: "world \<Rightarrow> string \<Rightarrow> world \<times> jsval" where
  "getTranslation w key =
     (case walk (Data (translationTree w)) (split CHR ''.'' key) of
        Some v \<Rightarrow> (w, v)
      | None \<Rightarrow> (log (WarnKeyNotFound key) w, Data (JStr key)))"

section \<open>Interpolation\<close>

definition is_word_char :: "char \<Rightarrow> bool" where
  "is_word_char c =
     (c \<in> set ''ABCDEFGHIJKLMNOPQRSTUVWXYZabcdefghijklmnopqrstuvwxyz0123456789_'')"

text \<open>
  A match of \<open>/\{\{(\w+)\}\}/\<close> at the start of the text: the name captured and the text
  after the match. \<open>\w+\<close> is greedy and a closing brace is no word character, so the name
  is the longest run of word characters.
\<close>

definition match_placeholder :: "string \<Rightarrow> (string \<times> string) option" where
  "match_placeholder s =
     (case s of
        c1 # c2 # r \<Rightarrow>
          if c1 = CHR ''{'' \<and> c2 = CHR ''{'' \<and> takeWhile is_word_char r \<noteq> []
          then (case dropWhile is_word_char r of
                  d1 # d2 # rest \<Rightarrow>
                    if d1 = CHR ''}'' \<and> d2 = CHR ''}''
                    then Some (takeWhile is_word_char r, rest) else None
                | _ \<Rightarrow> None)
          else None
      | _ \<Rightarrow> None)"

text \<open>
  The callback of \<open>replace\<close>: \<open>vars[key] !== undefined ? vars[key] : match\<close>, and the
  conversion of its result to a string that \<open>replace\<close> performs.
\<close>

definition substitute :: "jsval \<Rightarrow> string \<Rightarrow> error + string" where
  "substitute vars key =
     (case get_property vars key of
        Inl e \<Rightarrow> Inl e
      | Inr v \<Rightarrow> if v \<noteq> Undefined then to_string v else Inr (''{{'' @ key @ ''}}''))"

function replace_placeholders :: "jsval \<Rightarrow> string \<Rightarrow> error + string" where
  "replace_placeholders vars [] = Inr []"
| "replace_placeholders vars (c # cs) =
     (case match_placeholder (c # cs) of
        Some (name, rest) \<Rightarrow>
          (case substitute vars name of
             Inl e \<Rightarrow> Inl e
           | Inr r \<Rightarrow>
               (case replace_placeholders vars rest of
                  Inl e \<Rightarrow> Inl e
                | Inr out \<Rightarrow> Inr (r @ out)))
      | None \<Rightarrow>
          (case replace_placeholders vars cs of
             Inl e \<Rightarrow> Inl e
           | Inr out \<Rightarrow> Inr (c # out)))"
  by pat_completeness auto
termination
proof (relation "measure (\<lambda>(vars, s). length s)", goal_cases)
  case 1
  show ?case by simp
next
  case (2 vars c cs)
  show ?case by simp
next
  case (3 vars c cs m name rest r)
  then obtain c2 t d1 d2 where s: "cs = c2 # t"
    and d: "dropWhile is_word_char t = d1 # d2 # rest"
    by (auto simp: match_placeholder_def split: list.splits if_splits)
  have "length (dropWhile is_word_char t) \<le> length t"
    by (rule length_dropWhile_le)
  with s d show ?case by simp
qed

definition interpolate :: "string \<Rightarrow> jsval \<Rightarrow> error + string" where
  "interpolate text vars = replace_placeholders vars text"

section \<open>Storage, URL and browser language\<close>

definition saveLanguage :: "world \<Rightarrow> string \<Rightarrow> world" where
  "saveLanguage w lang =
     (if setItemThrows w then log WarnUnableToSave w
      else w\<lparr>localStorage := (localStorage w)(storageKey w \<mapsto> lang)\<rparr>)"

definition getSavedLanguage :: "world \<Rightarrow> string option" where
  "getSavedLanguage w = (if getItemThrows w then None else localStorage w (storageKey w))"

definition getUrlLanguage :: "world \<Rightarrow> world \<times> string option" where
  "getUrlLanguage w =
     (if urlReadThrows w then (log WarnUrlRead w, None)
      else (case urlLang w of
              Some l \<Rightarrow> if l \<noteq> [] \<and> l \<in> set (supportedLanguages w) then (w, Some l) else (w, None)
            | None \<Rightarrow> (w, None)))"

definition updateUrlLanguage :: "world \<Rightarrow> string \<Rightarrow> world" where
  "updateUrlLanguage w lang =
     (if urlWriteThrows w then log WarnUrlUpdate w
      else w\<lparr>urlLang := (if lang \<noteq> defaultLang w then Some lang else None)\<rparr>)"

text \<open>\<open>a || b\<close> on values that are a string or absent: \<open>a\<close> when it is a non-empty string.\<close>

definition js_or :: "string option \<Rightarrow> string option \<Rightarrow> string option" where
  "js_or a b = (case a of Some s \<Rightarrow> if s \<noteq> [] then Some s else b | None \<Rightarrow> b)"

definition js_or_string :: "string option \<Rightarrow> string \<Rightarrow> string" where
  "js_or_string a b = (case a of Some s \<Rightarrow> if s \<noteq> [] then s else b | None \<Rightarrow> b)"

text \<open>
  When the browser reports no language at all, \<open>browserLang\<close> is \<open>undefined\<close> and
  \<open>browserLang.split\<close> raises.
\<close>

definition detectBrowserLanguage :: "world \<Rightarrow> error + string" where
  "detectBrowserLanguage w =
     (case js_or (navigatorLanguage w) (navigatorUserLanguage w) of
        None \<Rightarrow> Inl TypeError
      | Some browserLang \<Rightarrow>
          if browserLang \<in> set (supportedLanguages w) then Inr browserLang
          else (case split CHR ''-'' browserLang of
                  [] \<Rightarrow> Inl TypeError
                | langCode # rest \<Rightarrow>
                    Inr (js_or_string
                           (find (\<lambda>lang. prefix langCode lang) (supportedLanguages w))
                           (defaultLang w))))"

definition getCurrentLanguage :: "world \<Rightarrow> string" where
  "getCurrentLanguage w = currentLang w"

section \<open>Applying translations to the page\<close>

fun string_value :: "jsval \<Rightarrow> string" where
  "string_value (Data (JStr s)) = s"
| "string_value v = []"

text \<open>
  The assignment for an element without variables: \<open>innerHTML\<close> when the translation
  contains \<open><\<close>, \<open>textContent\<close> otherwise.
\<close>

definition assignTranslation :: "string \<Rightarrow> element \<Rightarrow> element" where
  "assignTranslation s e =
     (if CHR ''<'' \<in> set s then e\<lparr>content := Markup s\<rparr> else e\<lparr>content := PlainText s\<rparr>)"

text \<open>
  The assignment for an element with variables: the interpolated text, or the
  translation itself when \<open>JSON.parse\<close> or \<open>interpolate\<close> raises.
\<close>

definition assignInterpolated :: "world \<Rightarrow> string \<Rightarrow> string \<Rightarrow> string \<Rightarrow> element
    \<Rightarrow> world \<times> element" where
  "assignInterpolated w key s payload e =
     (case jsonParse w payload of
        None \<Rightarrow> (log (ErrorParsingVars key) w, e\<lparr>content := PlainText s\<rparr>)
      | Some vars \<Rightarrow>
          (case interpolate s (Data vars) of
             Inl err \<Rightarrow> (log (ErrorParsingVars key) w, e\<lparr>content := PlainText s\<rparr>)
           | Inr out \<Rightarrow> (w, e\<lparr>content := PlainText out\<rparr>)))"

text \<open>The body of the first \<open>forEach\<close>, for an element that carries \<open>data-i18n\<close>.\<close>

definition translateText :: "world \<Rightarrow> element \<Rightarrow> world \<times> element" where
  "translateText w e =
     (case i18n_key e of
        None \<Rightarrow> (w, e)
      | Some key \<Rightarrow>
          (let (w1, translation) = getTranslation w key in
           if truthy translation \<and> typeof translation = TString then
             (let s = string_value translation in
              case i18n_vars e of
                None \<Rightarrow> (w1, assignTranslation s e)
              | Some payload \<Rightarrow>
                  if payload \<noteq> [] then assignInterpolated w1 key s payload e
                  else (w1, assignTranslation s e))
           else if truthy translation then (log (WarnNotAString key translation) w1, e)
           else (w1, e)))"

text \<open>
  \<open>setAttribute\<close> converts the value it is handed to a string, and raises when the value
  has no string form. Nothing in \<open>applyTranslations\<close> catches that.
\<close>

definition setAttribute :: "jsval \<Rightarrow> error + string" where
  "setAttribute v = to_string v"

text \<open>
  The bodies of the three attribute passes: the element and the state they leave, and
  the exception they end with, if any.
\<close>

definition translatePlaceholder :: "world \<Rightarrow> element \<Rightarrow> (world \<times> element) \<times> error option" where
  "translatePlaceholder w e =
     (case i18n_placeholder e of
        None \<Rightarrow> ((w, e), None)
      | Some key \<Rightarrow>
          (let (w1, translation) = getTranslation w key in
           if truthy translation then
             (case setAttribute translation of
                Inl err \<Rightarrow> ((w1, e), Some err)
              | Inr s \<Rightarrow> ((w1, e\<lparr>placeholder := Some s\<rparr>), None))
           else ((w1, e), None)))"

definition translateAlt :: "world \<Rightarrow> element \<Rightarrow> (world \<times> element) \<times> error option" where
  "translateAlt w e =
     (case i18n_alt e of
        None \<Rightarrow> ((w, e), None)
      | Some key \<Rightarrow>
          (let (w1, translation) = getTranslation w key in
           if truthy translation then
             (case setAttribute translation of
                Inl err \<Rightarrow> ((w1, e), Some err)
              | Inr s \<Rightarrow> ((w1, e\<lparr>alt := Some s\<rparr>), None))
           else ((w1, e), None)))"

definition translateTitle :: "world \<Rightarrow> element \<Rightarrow> (world \<times> element) \<times> error option" where
  "translateTitle w e =
     (case i18n_title e of
        None \<Rightarrow> ((w, e), None)
      | Some key \<Rightarrow>
          (let (w1, translation) = getTranslation w key in
           if truthy translation then
             (case setAttribute translation of
                Inl err \<Rightarrow> ((w1, e), Some err)
              | Inr s \<Rightarrow> ((w1, e\<lparr>title := Some s\<rparr>), None))
           else ((w1, e), None)))"

text \<open>The body of the text pass raises nothing: its one \<open>try\<close> block catches.\<close>

definition normally :: "(world \<Rightarrow> element \<Rightarrow> world \<times> element) \<Rightarrow> world \<Rightarrow> element
    \<Rightarrow> (world \<times> element) \<times> error option" where
  "normally f w e = (f w e, None)"

text \<open>
  \<open>forEach\<close> over the elements in document order; an element without the marker
  attribute is not selected, and its body leaves it alone. An exception ends the loop:
  the elements after the one that raised are not visited.
\<close>

fun forEach :: "(world \<Rightarrow> element \<Rightarrow> (world \<times> element) \<times> error option) \<Rightarrow> world
    \<Rightarrow> element list \<Rightarrow> (world \<times> element list) \<times> error option" where
  "forEach f w [] = ((w, []), None)"
| "forEach f w (e # es) =
     (case f w e of
        ((w1, e1), Some err) \<Rightarrow> ((w1, e1 # es), Some err)
      | ((w1, e1), None) \<Rightarrow>
          (case forEach f w1 es of ((w2, es1), r) \<Rightarrow> ((w2, e1 # es1), r)))"

definition pass :: "(world \<Rightarrow> element \<Rightarrow> (world \<times> element) \<times> error option) \<Rightarrow> world
    \<Rightarrow> world \<times> error option" where
  "pass f w = (case forEach f w (elements w) of ((w1, es), r) \<Rightarrow> (w1\<lparr>elements := es\<rparr>, r))"

text \<open>One statement after another: the second runs when the first did not raise.\<close>

definition andThen :: "world \<times> error option \<Rightarrow> (world \<Rightarrow> world \<times> error option)
    \<Rightarrow> world \<times> error option" where
  "andThen r g = (case r of (w, Some err) \<Rightarrow> (w, Some err) | (w, None) \<Rightarrow> g w)"

text \<open>
  The four passes. The result is the state \<open>applyTranslations\<close> leaves, whether it
  returns or raises, and the exception if it raises.
\<close>

definition applyTranslations :: "world \<Rightarrow> world \<times> error option" where
  "applyTranslations w =
     andThen
       (andThen
          (andThen (pass (normally translateText) w) (pass translatePlaceholder))
          (pass translateAlt))
       (pass translateTitle)"

section \<open>Switching the language and start-up\<close>

text \<open>
  The methods are \<open>async\<close>; the model follows one call from its first statement to its
  \<open>return\<close>, each \<open>await\<close> in its place. Calls that overlap are outside the model.
  \<open>switchLanguage\<close> has no \<open>try\<close> block of its own: an exception of \<open>applyTranslations\<close>
  ends it there, with the state reached so far, and the promise is rejected (\<open>Inl\<close>).
\<close>

definition switchLanguage :: "world \<Rightarrow> string \<Rightarrow> world \<times> (error + bool)" where
  "switchLanguage w lang =
     (if lang \<notin> set (supportedLanguages w) then (log (WarnNotSupported lang) w, Inr False)
      else
        (let w1 = w\<lparr>bodyOpacity := Some ''0.7''\<rparr>;
             (w2, loaded) = loadTranslations w1 lang;
             w3 = w2\<lparr>currentLang := lang\<rparr>;
             w4 = saveLanguage w3 lang
         in case applyTranslations w4 of
              (w5, Some err) \<Rightarrow> (w5, Inl err)
            | (w5, None) \<Rightarrow>
                (let w6 = w5\<lparr>htmlLang := Some lang\<rparr>;
                     w7 = updateUrlLanguage w6 lang;
                     w8 = w7\<lparr>bodyOpacity := Some ''1''\<rparr>;
                     w9 = w8\<lparr>events := events w8 @ [lang]\<rparr>
                 in (w9, Inr True))))"

definition classList_remove :: "string \<Rightarrow> string list \<Rightarrow> string list" where
  "classList_remove c cs = filter (\<lambda>x. x \<noteq> c) cs"

definition classList_add :: "string \<Rightarrow> string list \<Rightarrow> string list" where
  "classList_add c cs = (if c \<in> set cs then cs else cs @ [c])"

text \<open>
  \<open>init\<close> raises where \<open>detectBrowserLanguage\<close> or \<open>applyTranslations\<close> does (\<open>Inl\<close>), and
  otherwise returns the state it leaves.
\<close>

definition init :: "world \<Rightarrow> error + world" where
  "init w =
     (let savedLang = getSavedLanguage w in
      case detectBrowserLanguage w of
        Inl err \<Rightarrow> Inl err
      | Inr browserLang \<Rightarrow>
          (let (w1, urlLang) = getUrlLanguage w;
               w2 = w1\<lparr>currentLang :=
                         js_or_string (js_or urlLang (js_or savedLang (Some browserLang)))
                           (defaultLang w1)\<rparr>;
               (w3, loaded) = loadTranslations w2 (currentLang w2)
           in case applyTranslations w3 of
                (w4, Some err) \<Rightarrow> Inl err
              | (w4, None) \<Rightarrow>
                  (let w5 = w4\<lparr>htmlLang := Some (currentLang w4)\<rparr>;
                       w6 = w5\<lparr>bodyClasses :=
                                 classList_add ''i18n-ready''
                                   (classList_remove ''i18n-loading'' (bodyClasses w5))\<rparr>
                   in Inr w6)))"

section \<open>Auxiliary definitions\<close>

text \<open>\<open>extends w w'\<close>: \<open>w'\<close> is \<open>w\<close> with more lines on the console.\<close>

definition extends :: "world \<Rightarrow> world \<Rightarrow> bool" where
  "extends w w' = (\<exists>c. w' = w\<lparr>console := console w @ c\<rparr>)"

text \<open>A pass changes the console and the elements only.\<close>

definition page_update :: "world \<Rightarrow> world \<Rightarrow> bool" where
  "page_update w w' = (\<exists>c es. w' = w\<lparr>elements := es, console := console w @ c\<rparr>)"

text \<open>\<open>same_sources w w'\<close>: the two states hold the same tree and the same \<open>JSON.parse\<close>.\<close>

definition same_sources :: "world \<Rightarrow> world \<Rightarrow> bool" where
  "same_sources w w' = (translationTree w' = translationTree w \<and> jsonParse w' = jsonParse w)"

text \<open>
  The states a call of \<open>switchLanguage\<close> with a supported language goes through: after
  the load, and after \<open>applyTranslations\<close>; and the exception of \<open>applyTranslations\<close>
  there, if any.
\<close>

definition afterLoad :: "world \<Rightarrow> string \<Rightarrow> world" where
  "afterLoad w lang = (fst (loadTranslations (w\<lparr>bodyOpacity := Some ''0.7''\<rparr>) lang))\<lparr>currentLang := lang\<rparr>"

definition afterApply :: "world \<Rightarrow> string \<Rightarrow> world" where
  "afterApply w lang = fst (applyTranslations (saveLanguage (afterLoad w lang) lang))"

definition applyRaises :: "world \<Rightarrow> string \<Rightarrow> error option" where
  "applyRaises w lang = snd (applyTranslations (saveLanguage (afterLoad w lang) lang))"

text \<open>
  \<open>keeps_content w w'\<close>: the same number of elements, each showing what it showed.
\<close>

definition keeps_content :: "world \<Rightarrow> world \<Rightarrow> bool" where
  "keeps_content w w' =
     (length (elements w') = length (elements w) \<and>
      (\<forall>i < length (elements w). content (elements w' ! i) = content (elements w ! i)))"

text \<open>
  The lines a pass can write: a \<open>not a string\<close> warning is only written for a truthy
  value.
\<close>

fun pass_diagnostic :: "diagnostic \<Rightarrow> bool" where
  "pass_diagnostic (WarnNotAString key v) = truthy v"
| "pass_diagnostic d = True"

definition writes_diagnostics :: "world \<Rightarrow> world \<Rightarrow> bool" where
  "writes_diagnostics w w' =
     (\<forall>d \<in> set (console w'). d \<in> set (console w) \<or> pass_diagnostic d)"

text \<open>
  The walk an own-property test would make: a segment is found only among the members
  of the object (the elements and the length of the array) it is looked up in.
\<close>

fun own_walk :: "jsval \<Rightarrow> string list \<Rightarrow> jsval option" where
  "own_walk v [] = Some v"
| "own_walk v (k # ks) =
     (if truthy v \<and> typeof v = TObject
      then (case own_property v k of None \<Rightarrow> None | Some v' \<Rightarrow> own_walk v' ks)
      else None)"

text \<open>The names every object or array inherits.\<close>

definition inherited_name :: "string \<Rightarrow> bool" where
  "inherited_name k = (k = ''__proto__'' \<or> proto_chain ArrayPrototype k \<noteq> None)"

section \<open>Concrete pages\<close>

text \<open>
  A freshly constructed \<open>I18n\<close> object on a page with no marked element, empty storage, no
  \<open>lang\<close> parameter, a browser reporting \<open>en-US\<close> and a server where every fetch fails.
  The concrete inputs below are variations of it.
\<close>

definition emptyPage :: world where
  "emptyPage =
     constructor
       \<lparr>currentLang = [], defaultLang = [], translationTree = JNull,
        supportedLanguages = [], storageKey = [], localStorage = Map.empty,
        getItemThrows = False, setItemThrows = False, urlLang = None,
        urlReadThrows = False, urlWriteThrows = False,
        navigatorLanguage = Some ''en-US'', navigatorUserLanguage = None,
        server = (\<lambda>path. NetworkError), requests = [], jsonParse = (\<lambda>s. None),
        htmlLang = None, bodyOpacity = None, bodyClasses = [''i18n-loading''],
        elements = [], console = [], events = []\<rparr>"

text \<open>An element with no attribute set, showing the given markup.\<close>

definition plainElement :: "string \<Rightarrow> element" where
  "plainElement html =
     \<lparr>i18n_key = None, i18n_vars = None, i18n_placeholder = None, i18n_alt = None,
      i18n_title = None, content = Markup html, placeholder = None, alt = None,
      title = None\<rparr>"

text \<open>A server that has the English file only.\<close>

definition englishOnly :: "string \<Rightarrow> response" where
  "englishOnly path =
     (if path = ''i18n/translations/en.json''
      then Response True (Some (JObj [(''greeting'', JStr ''Hello'')]))
      else NetworkError)"

text \<open>
  A page with a search field whose placeholder key names a subtree, and a text element
  whose key names a \<open>null\<close>.
\<close>

definition subtreePage :: world where
  "subtreePage =
     emptyPage
       \<lparr>translationTree :=
          JObj [(''nav'', JObj [(''home'', JStr ''Home'')]), (''empty'', JNull)],
        elements :=
          [(plainElement ''Search'')\<lparr>i18n_placeholder := Some ''nav''\<rparr>,
           (plainElement ''Old'')\<lparr>i18n_key := Some ''empty''\<rparr>]\<rparr>"

text \<open>The same tree, with one text element whose key names the subtree.\<close>

definition menuPage :: world where
  "menuPage = subtreePage\<lparr>elements := [(plainElement ''Menu'')\<lparr>i18n_key := Some ''nav''\<rparr>]\<rparr>"

text \<open>
  Four text elements: plain text, text with a tag (and an empty variables attribute),
  and two whose key names the empty string, one of them with a variables payload.
\<close>

definition greetingPage :: world where
  "greetingPage =
     emptyPage
       \<lparr>translationTree :=
          JObj [(''title'', JStr ''Welcome''), (''lead'', JStr ''Hello <b>you</b>''),
                (''blank'', JStr [])],
        elements :=
          [(plainElement ''Old title'')\<lparr>i18n_key := Some ''title''\<rparr>,
           (plainElement ''Old lead'')\<lparr>i18n_key := Some ''lead'', i18n_vars := Some []\<rparr>,
           (plainElement ''Old blank'')\<lparr>i18n_key := Some ''blank''\<rparr>,
           (plainElement ''Old count'')\<lparr>i18n_key := Some ''blank'', i18n_vars := Some ''{}''\<rparr>]\<rparr>"

text \<open>
  A page whose storage slot holds a code that is not supported, as a stale or edited
  entry does.
\<close>

definition staleStoragePage :: world where
  "staleStoragePage =
     emptyPage\<lparr>localStorage := [''mezzofy_language'' \<mapsto> ''fr''], server := englishOnly\<rparr>"

text \<open>
  A page whose Chinese file has a group with a member named \<open>toString\<close>, and a field
  whose placeholder key names the group.
\<close>

definition methodsFile :: "string \<Rightarrow> response" where
  "methodsFile path =
     (if path = ''i18n/translations/zh-TW.json''
      then Response True
             (Some (JObj [(''methods'', JObj [(''toString'', JStr ''Converts to text'')])]))
      else NetworkError)"

definition methodsPage :: world where
  "methodsPage =
     emptyPage
       \<lparr>server := methodsFile,
        elements := [(plainElement [])\<lparr>i18n_placeholder := Some ''methods''\<rparr>]\<rparr>"

text \<open>
  The same page later on: the tree with the group is the one held, and every fetch
  fails.
\<close>

definition methodsOffline :: world where
  "methodsOffline =
     emptyPage
       \<lparr>translationTree := JObj [(''methods'', JObj [(''toString'', JStr ''Converts to text'')])],
        elements := [(plainElement [])\<lparr>i18n_placeholder := Some ''methods''\<rparr>]\<rparr>"

text \<open>A server that answers every path with a response that is not \<open>ok\<close>, with a JSON body.\<close>

definition notFound :: "string \<Rightarrow> response" where
  "notFound path = Response False (Some (JObj [(''error'', JStr ''not found'')]))"

section \<open>What the operations leave unchanged\<close>

lemma extends_refl: "extends w w"
  unfolding extends_def by (rule exI [of _ "[]"]) simp

lemma extends_trans: "extends u v \<Longrightarrow> extends v w \<Longrightarrow> extends u w"
proof -
  assume "extends u v" and "extends v w"
  then obtain c d where v: "v = u\<lparr>console := console u @ c\<rparr>"
    and w: "w = v\<lparr>console := console v @ d\<rparr>"
    unfolding extends_def by blast
  have "w = u\<lparr>console := console u @ (c @ d)\<rparr>" by (simp add: v w)
  then show ?thesis unfolding extends_def by blast
qed

lemma extends_log: "extends w (log d w)"
  unfolding extends_def log_def by auto

lemma fetched_frame:
  "server w' = server w \<Longrightarrow> fetched w' lang = fetched w lang"
  by (simp add: fetched_def)

lemma loadTranslations_unfold:
  "loadTranslations w lang =
     (case fetched w lang of
        Some tree \<Rightarrow>
          (w\<lparr>requests := requests w @ [translationPath lang], translationTree := tree\<rparr>, True)
      | None \<Rightarrow>
          if lang = defaultLang w
          then (w\<lparr>requests := requests w @ [translationPath lang],
                  console := console w @ [ErrorLoading lang]\<rparr>, False)
          else (case fetched w (defaultLang w) of
                  Some tree \<Rightarrow>
                    (w\<lparr>requests := requests w @ [translationPath lang, translationPath (defaultLang w)],
                       console := console w @ [ErrorLoading lang, WarnFallingBack (defaultLang w)],
                       translationTree := tree\<rparr>, True)
                | None \<Rightarrow>
                    (w\<lparr>requests := requests w @ [translationPath lang, translationPath (defaultLang w)],
                       console := console w @ [ErrorLoading lang, WarnFallingBack (defaultLang w),
                                               ErrorLoading (defaultLang w)]\<rparr>, False)))"
proof (cases "fetched w lang")
  case (Some tree)
  then show ?thesis by (simp add: loadTranslations.simps [of w lang])
next
  case None
  show ?thesis
  proof (cases "lang = defaultLang w")
    case True
    with None show ?thesis
      by (simp add: loadTranslations.simps [of w "defaultLang w"] log_def)
  next
    case False
    let ?w' = "log (WarnFallingBack (defaultLang w))
                 (log (ErrorLoading lang) (w\<lparr>requests := requests w @ [translationPath lang]\<rparr>))"
    have d: "defaultLang ?w' = defaultLang w" by (simp add: log_def)
    have f: "fetched ?w' (defaultLang w) = fetched w (defaultLang w)"
      by (rule fetched_frame) (simp add: log_def)
    have step: "loadTranslations w lang = loadTranslations ?w' (defaultLang w)"
      using None False by (simp add: loadTranslations.simps [of w lang])
    show ?thesis
      unfolding step using None False
      by (cases "fetched w (defaultLang w)")
         (simp_all add: loadTranslations.simps [of ?w' "defaultLang w"] d f, simp_all add: log_def)
  qed
qed

lemma getTranslation_extends: "extends w (fst (getTranslation w key))"
  by (simp add: getTranslation_def extends_refl extends_log split: option.splits)

lemma getTranslation_extends_pair: "getTranslation w key = (w1, t) \<Longrightarrow> extends w w1"
  using getTranslation_extends [of w key] by simp

lemma getTranslation_value:
  "translationTree w' = translationTree w \<Longrightarrow>
     snd (getTranslation w' key) = snd (getTranslation w key)"
  by (simp add: getTranslation_def split: option.splits)

lemma assignInterpolated_extends: "extends w (fst (assignInterpolated w key s payload e))"
  by (simp add: assignInterpolated_def extends_refl extends_log split: option.splits sum.splits)

lemma translateText_extends: "extends w (fst (translateText w e))"
proof (cases "i18n_key e")
  case None
  then show ?thesis by (simp add: translateText_def extends_refl)
next
  case (Some key)
  obtain w1 t where g: "getTranslation w key = (w1, t)" by (cases "getTranslation w key")
  have e1: "extends w w1" using getTranslation_extends [of w key] g by simp
  have "extends w1 (fst (translateText w e))"
    using Some g
    by (simp add: translateText_def Let_def extends_refl extends_log
        assignInterpolated_extends split: option.splits)
  with e1 show ?thesis by (rule extends_trans)
qed

lemma translatePlaceholder_extends: "extends w (fst (fst (translatePlaceholder w e)))"
  by (auto simp: translatePlaceholder_def Let_def extends_refl
      split: option.splits prod.splits sum.splits dest: getTranslation_extends_pair)

lemma translateAlt_extends: "extends w (fst (fst (translateAlt w e)))"
  by (auto simp: translateAlt_def Let_def extends_refl
      split: option.splits prod.splits sum.splits dest: getTranslation_extends_pair)

lemma translateTitle_extends: "extends w (fst (fst (translateTitle w e)))"
  by (auto simp: translateTitle_def Let_def extends_refl
      split: option.splits prod.splits sum.splits dest: getTranslation_extends_pair)

lemma normally_extends:
  "(\<And>w e. extends w (fst (f w e))) \<Longrightarrow> extends w (fst (fst (normally f w e)))"
  by (simp add: normally_def)

lemma forEach_extends:
  assumes "\<And>w e. extends w (fst (fst (f w e)))"
  shows "extends w (fst (fst (forEach f w es)))"
proof (induction es arbitrary: w)
  case Nil
  then show ?case by (simp add: extends_refl)
next
  case (Cons e es)
  obtain w1 e1 r where s: "f w e = ((w1, e1), r)" by (cases "f w e") auto
  have a: "extends w w1" using assms [of w e] s by simp
  show ?case
  proof (cases r)
    case (Some err)
    with s a show ?thesis by simp
  next
    case None
    have "fst (fst (forEach f w (e # es))) = fst (fst (forEach f w1 es))"
      using s None by (simp add: case_prod_beta)
    with a Cons.IH [of w1] show ?thesis by (metis extends_trans)
  qed
qed

lemma forEach_length: "length (snd (fst (forEach f w es))) = length es"
proof (induction es arbitrary: w)
  case Nil
  then show ?case by simp
next
  case (Cons e es)
  obtain w1 e1 r where s: "f w e = ((w1, e1), r)" by (cases "f w e") auto
  show ?case using s Cons.IH [of w1] by (cases r) (simp_all add: case_prod_beta)
qed

lemma pass_page_update:
  assumes "\<And>w e. extends w (fst (fst (f w e)))"
  shows "page_update w (fst (pass f w))"
proof -
  have "extends w (fst (fst (forEach f w (elements w))))"
    using assms by (rule forEach_extends)
  then obtain c where "fst (fst (forEach f w (elements w))) = w\<lparr>console := console w @ c\<rparr>"
    unfolding extends_def by blast
  then have "fst (pass f w) =
      w\<lparr>elements := snd (fst (forEach f w (elements w))), console := console w @ c\<rparr>"
    by (simp add: pass_def case_prod_beta)
  then show ?thesis unfolding page_update_def by blast
qed

lemma page_update_refl: "page_update w w"
  unfolding page_update_def by (rule exI [of _ "[]"], rule exI [of _ "elements w"]) simp

lemma page_update_trans: "page_update u v \<Longrightarrow> page_update v w \<Longrightarrow> page_update u w"
proof -
  assume "page_update u v" and "page_update v w"
  then obtain c es d fs where v: "v = u\<lparr>elements := es, console := console u @ c\<rparr>"
    and w: "w = v\<lparr>elements := fs, console := console v @ d\<rparr>"
    unfolding page_update_def by blast
  have "w = u\<lparr>elements := fs, console := console u @ (c @ d)\<rparr>" by (simp add: v w)
  then show ?thesis unfolding page_update_def by blast
qed

text \<open>A relation that every statement of a sequence keeps is kept by the sequence.\<close>

lemma andThen_preserves:
  assumes "R w (fst r)" and "\<And>u. R u (fst (g u))" and "\<And>a b c. R a b \<Longrightarrow> R b c \<Longrightarrow> R a c"
  shows "R w (fst (andThen r g))"
proof (cases r)
  case (Pair u x)
  show ?thesis
  proof (cases x)
    case None
    with Pair assms(1) assms(2) [of u] show ?thesis
      by (auto simp: andThen_def intro: assms(3))
  next
    case (Some err)
    with Pair assms(1) show ?thesis by (simp add: andThen_def)
  qed
qed

lemma andThen_page_update:
  assumes "page_update w (fst r)" and "\<And>u. page_update u (fst (g u))"
  shows "page_update w (fst (andThen r g))"
  using assms(1)
proof (rule andThen_preserves [where R = page_update])
  show "page_update u (fst (g u))" for u by (rule assms(2))
  show "page_update a b \<Longrightarrow> page_update b c \<Longrightarrow> page_update a c" for a b c
    by (rule page_update_trans)
qed

lemma text_pass_page_update: "page_update w (fst (pass (normally translateText) w))"
  by (rule pass_page_update) (simp add: normally_def translateText_extends)

text \<open>The three attribute passes, from any state they start in.\<close>

lemma attribute_passes_page_update:
  assumes "page_update w (fst r)"
  shows "page_update w
    (fst (andThen (andThen (andThen r (pass translatePlaceholder)) (pass translateAlt))
       (pass translateTitle)))"
  by (intro andThen_page_update assms pass_page_update translatePlaceholder_extends
        translateAlt_extends translateTitle_extends)

lemma applyTranslations_page_update: "page_update w (fst (applyTranslations w))"
  unfolding applyTranslations_def
  by (rule attribute_passes_page_update) (rule text_pass_page_update)

lemma page_update_fields:
  assumes "page_update w w'"
  shows "currentLang w' = currentLang w" and "defaultLang w' = defaultLang w"
    and "translationTree w' = translationTree w"
    and "supportedLanguages w' = supportedLanguages w"
    and "storageKey w' = storageKey w" and "localStorage w' = localStorage w"
    and "setItemThrows w' = setItemThrows w" and "urlLang w' = urlLang w"
    and "urlWriteThrows w' = urlWriteThrows w" and "events w' = events w"
    and "set (console w) \<subseteq> set (console w')"
  using assms unfolding page_update_def by auto

section \<open>The steps of \<open>switchLanguage\<close>\<close>

lemma switchLanguage_supported:
  "lang \<in> set (supportedLanguages w) \<Longrightarrow>
     switchLanguage w lang =
       (case applyRaises w lang of
          Some err \<Rightarrow> (afterApply w lang, Inl err)
        | None \<Rightarrow>
            ((updateUrlLanguage ((afterApply w lang)\<lparr>htmlLang := Some lang\<rparr>) lang)
               \<lparr>bodyOpacity := Some ''1'',
                events := events (afterApply w lang) @ [lang]\<rparr>, Inr True))"
  by (simp add: switchLanguage_def afterApply_def applyRaises_def afterLoad_def Let_def
      case_prod_beta updateUrlLanguage_def log_def split: option.splits)

text \<open>
  The result of a call with a supported language: \<open>true\<close>, or the exception of
  \<open>applyTranslations\<close>. What the load did does not enter.
\<close>

lemma switchLanguage_result:
  "lang \<in> set (supportedLanguages w) \<Longrightarrow>
     snd (switchLanguage w lang) =
       (case applyRaises w lang of Some err \<Rightarrow> Inl err | None \<Rightarrow> Inr True)"
  by (simp add: switchLanguage_supported split: option.splits)

lemma switchLanguage_returns_true:
  assumes "snd (switchLanguage w lang) = Inr True"
  shows "lang \<in> set (supportedLanguages w)" and "applyRaises w lang = None"
proof -
  show s: "lang \<in> set (supportedLanguages w)"
    using assms by (auto simp: switchLanguage_def split: if_splits)
  show "applyRaises w lang = None"
    using assms switchLanguage_result [OF s] by (auto split: option.splits)
qed

lemma afterLoad_fields:
  "defaultLang (afterLoad w lang) = defaultLang w"
  "currentLang (afterLoad w lang) = lang"
  "localStorage (afterLoad w lang) = localStorage w"
  "storageKey (afterLoad w lang) = storageKey w"
  "setItemThrows (afterLoad w lang) = setItemThrows w"
  "urlLang (afterLoad w lang) = urlLang w"
  "urlWriteThrows (afterLoad w lang) = urlWriteThrows w"
  by (simp_all add: afterLoad_def loadTranslations_unfold fetched_def
      split: option.splits response.splits)

lemma afterLoad_tree:
  "translationTree (afterLoad w lang) =
     (case fetched w lang of
        Some tree \<Rightarrow> tree
      | None \<Rightarrow>
          if lang = defaultLang w then translationTree w
          else (case fetched w (defaultLang w) of
                  Some tree \<Rightarrow> tree
                | None \<Rightarrow> translationTree w))"
proof -
  have f: "\<And>l. fetched (w\<lparr>bodyOpacity := Some ''0.7''\<rparr>) l = fetched w l"
    by (simp add: fetched_def)
  show ?thesis
    by (simp add: afterLoad_def loadTranslations_unfold f split: option.splits)
qed

lemma saveLanguage_fields:
  "defaultLang (saveLanguage w lang) = defaultLang w"
  "currentLang (saveLanguage w lang) = currentLang w"
  "translationTree (saveLanguage w lang) = translationTree w"
  "urlLang (saveLanguage w lang) = urlLang w"
  "urlWriteThrows (saveLanguage w lang) = urlWriteThrows w"
  by (simp_all add: saveLanguage_def log_def)

lemma afterApply_fields:
  "defaultLang (afterApply w lang) = defaultLang w"
  "currentLang (afterApply w lang) = lang"
  "translationTree (afterApply w lang) = translationTree (afterLoad w lang)"
  "urlLang (afterApply w lang) = urlLang w"
  "urlWriteThrows (afterApply w lang) = urlWriteThrows w"
  "localStorage (afterApply w lang) = localStorage (saveLanguage (afterLoad w lang) lang)"
  "set (console (saveLanguage (afterLoad w lang) lang)) \<subseteq> set (console (afterApply w lang))"
  unfolding afterApply_def
  by (simp_all add: page_update_fields [OF applyTranslations_page_update]
      saveLanguage_fields afterLoad_fields)

lemma afterApply_console:
  "setItemThrows w \<Longrightarrow> WarnUnableToSave \<in> set (console (afterApply w lang))"
proof -
  assume "setItemThrows w"
  then have "WarnUnableToSave \<in> set (console (saveLanguage (afterLoad w lang) lang))"
    by (simp add: saveLanguage_def log_def afterLoad_fields)
  then show ?thesis using afterApply_fields(7) [of w lang] by blast
qed

lemma afterApply_storage:
  "localStorage (afterApply w lang) =
     (if setItemThrows w then localStorage w else (localStorage w)(storageKey w \<mapsto> lang))"
  by (simp add: afterApply_fields saveLanguage_def log_def afterLoad_fields)

section \<open>What the passes do to one element\<close>

lemma extends_same_sources: "extends w w' \<Longrightarrow> same_sources w w'"
  unfolding extends_def same_sources_def by auto

lemma assignInterpolated_element:
  "jsonParse w' = jsonParse w \<Longrightarrow>
     snd (assignInterpolated w' key s payload e) = snd (assignInterpolated w key s payload e)"
  by (simp add: assignInterpolated_def split: option.splits sum.splits)

lemma getTranslation_jsonParse:
  "jsonParse (fst (getTranslation w key)) = jsonParse w"
  by (simp add: getTranslation_def log_def split: option.splits)

lemma translateText_element:
  assumes "same_sources w w'"
  shows "snd (translateText w' e) = snd (translateText w e)"
proof (cases "i18n_key e")
  case None
  then show ?thesis by (simp add: translateText_def)
next
  case (Some key)
  obtain w1 t where g: "getTranslation w key = (w1, t)" by (cases "getTranslation w key")
  obtain w1' t' where g': "getTranslation w' key = (w1', t')" by (cases "getTranslation w' key")
  have tt: "translationTree w' = translationTree w" and jj: "jsonParse w' = jsonParse w"
    using assms by (simp_all add: same_sources_def)
  have t: "t' = t" using getTranslation_value [OF tt, of key] g g' by simp
  have "jsonParse w1' = jsonParse w'" using getTranslation_jsonParse [of w' key] g' by simp
  moreover have "jsonParse w1 = jsonParse w" using getTranslation_jsonParse [of w key] g by simp
  ultimately have p: "jsonParse w1' = jsonParse w1" using jj by simp
  have a: "\<And>s payload. snd (assignInterpolated w1' key s payload e)
      = snd (assignInterpolated w1 key s payload e)"
    by (rule assignInterpolated_element [OF p])
  show ?thesis
    by (simp add: translateText_def Some g g' t Let_def a split: option.splits)
qed

lemma forEach_nth:
  assumes frame: "\<And>w e. extends w (fst (fst (f w e)))"
    and indep: "\<And>w w' e. same_sources w w' \<Longrightarrow> snd (fst (f w' e)) = snd (fst (f w e))"
    and returns: "\<And>w e. snd (f w e) = None"
  shows "i < length es \<Longrightarrow> snd (fst (forEach f w es)) ! i = snd (fst (f w (es ! i)))"
proof (induction es arbitrary: w i)
  case Nil
  then show ?case by simp
next
  case (Cons e es)
  obtain w1 e1 where s: "f w e = ((w1, e1), None)"
    using returns [of w e] by (cases "f w e") auto
  have w1: "extends w w1" using frame [of w e] s by simp
  show ?case
  proof (cases i)
    case 0
    then show ?thesis by (simp add: s case_prod_beta)
  next
    case (Suc j)
    with Cons.prems have j: "j < length es" by simp
    have "snd (fst (forEach f w (e # es))) ! i = snd (fst (forEach f w1 es)) ! j"
      using Suc by (simp add: s case_prod_beta)
    also have "\<dots> = snd (fst (f w1 (es ! j)))" using j by (rule Cons.IH)
    also have "\<dots> = snd (fst (f w (es ! j)))"
      by (rule indep) (rule extends_same_sources [OF w1])
    finally show ?thesis using Suc by simp
  qed
qed

lemma text_pass_nth:
  assumes "i < length (elements w)"
  shows "elements (fst (pass (normally translateText) w)) ! i =
    snd (translateText w (elements w ! i))"
proof -
  have "snd (fst (forEach (normally translateText) w (elements w))) ! i =
      snd (fst (normally translateText w (elements w ! i)))"
    using assms
    by (intro forEach_nth) (simp_all add: normally_def translateText_extends translateText_element)
  then show ?thesis by (simp add: pass_def case_prod_beta normally_def)
qed

lemma pass_length: "length (elements (fst (pass f w))) = length (elements w)"
  by (simp add: pass_def case_prod_beta forEach_length)

text \<open>A loop whose body leaves the content alone leaves it alone, wherever it ends.\<close>

lemma forEach_content:
  assumes "\<And>w e. content (snd (fst (f w e))) = content e"
  shows "i < length es \<Longrightarrow> content (snd (fst (forEach f w es)) ! i) = content (es ! i)"
proof (induction es arbitrary: w i)
  case Nil
  then show ?case by simp
next
  case (Cons e es)
  obtain w1 e1 r where s: "f w e = ((w1, e1), r)" by (cases "f w e") auto
  have e1: "content e1 = content e" using assms [of w e] s by simp
  show ?case
  proof (cases r)
    case (Some err)
    with s e1 show ?thesis by (cases i) simp_all
  next
    case None
    show ?thesis
    proof (cases i)
      case 0
      with s None e1 show ?thesis by (simp add: case_prod_beta)
    next
      case (Suc j)
      with Cons.prems have "j < length es" by simp
      then have "content (snd (fst (forEach f w1 es)) ! j) = content (es ! j)"
        by (rule Cons.IH)
      with s None Suc show ?thesis by (simp add: case_prod_beta)
    qed
  qed
qed

lemma pass_keeps_content:
  assumes "\<And>w e. content (snd (fst (f w e))) = content e"
  shows "keeps_content w (fst (pass f w))"
  using forEach_content [of f _ "elements w" w, OF assms]
  by (simp add: keeps_content_def pass_def case_prod_beta forEach_length)

lemma keeps_content_refl: "keeps_content w w"
  by (simp add: keeps_content_def)

lemma keeps_content_trans:
  "keeps_content u v \<Longrightarrow> keeps_content v w \<Longrightarrow> keeps_content u w"
  by (simp add: keeps_content_def)

lemma attribute_bodies_content:
  "content (snd (fst (translatePlaceholder w e))) = content e"
  "content (snd (fst (translateAlt w e))) = content e"
  "content (snd (fst (translateTitle w e))) = content e"
  by (simp_all add: translatePlaceholder_def translateAlt_def translateTitle_def
      case_prod_beta Let_def split: option.splits sum.splits)

lemma andThen_keeps_content:
  assumes "keeps_content w (fst r)" and "\<And>u. keeps_content u (fst (g u))"
  shows "keeps_content w (fst (andThen r g))"
  using assms(1)
proof (rule andThen_preserves [where R = keeps_content])
  show "keeps_content u (fst (g u))" for u by (rule assms(2))
  show "keeps_content a b \<Longrightarrow> keeps_content b c \<Longrightarrow> keeps_content a c" for a b c
    by (rule keeps_content_trans)
qed

lemma attribute_passes_keep_content:
  assumes "keeps_content w (fst r)"
  shows "keeps_content w
    (fst (andThen (andThen (andThen r (pass translatePlaceholder)) (pass translateAlt))
       (pass translateTitle)))"
  by (intro andThen_keeps_content assms pass_keeps_content attribute_bodies_content)

text \<open>
  What an element shows after \<open>applyTranslations\<close>, whether it returned or raised, is
  what the text pass made it show.
\<close>

lemma applyTranslations_content:
  assumes "i < length (elements w)"
  shows "content (elements (fst (applyTranslations w)) ! i) =
    content (snd (translateText w (elements w ! i)))"
proof -
  let ?t = "pass (normally translateText) w"
  have "keeps_content (fst ?t) (fst (applyTranslations w))"
    unfolding applyTranslations_def
    by (rule attribute_passes_keep_content) (rule keeps_content_refl)
  moreover have "i < length (elements (fst ?t))" using assms by (simp add: pass_length)
  ultimately have "content (elements (fst (applyTranslations w)) ! i) =
      content (elements (fst ?t) ! i)"
    by (simp add: keeps_content_def)
  then show ?thesis using assms by (simp add: text_pass_nth)
qed

lemma extends_console: "extends w w' \<Longrightarrow> set (console w) \<subseteq> set (console w')"
  unfolding extends_def by auto

lemma forEach_console:
  assumes frame: "\<And>w e. extends w (fst (fst (f w e)))"
    and returns: "\<And>w e. snd (f w e) = None"
  shows "i < length es \<Longrightarrow>
    \<exists>w'. extends w w' \<and>
      set (console (fst (fst (f w' (es ! i))))) \<subseteq> set (console (fst (fst (forEach f w es))))"
proof (induction es arbitrary: w i)
  case Nil
  then show ?case by simp
next
  case (Cons e es)
  obtain w1 e1 where s: "f w e = ((w1, e1), None)"
    using returns [of w e] by (cases "f w e") auto
  have w1: "extends w w1" using frame [of w e] s by simp
  have rest: "fst (fst (forEach f w (e # es))) = fst (fst (forEach f w1 es))"
    by (simp add: s case_prod_beta)
  show ?case
  proof (cases i)
    case 0
    have "extends w1 (fst (fst (forEach f w1 es)))" using frame by (rule forEach_extends)
    then have "set (console w1) \<subseteq> set (console (fst (fst (forEach f w (e # es)))))"
      unfolding rest by (rule extends_console)
    moreover have "fst (fst (f w ((e # es) ! i))) = w1" using 0 s by simp
    ultimately have "extends w w \<and>
        set (console (fst (fst (f w ((e # es) ! i)))))
          \<subseteq> set (console (fst (fst (forEach f w (e # es)))))"
      by (simp only: extends_refl simp_thms)
    then show ?thesis by (rule exI)
  next
    case (Suc j)
    with Cons.prems have "j < length es" by simp
    then obtain w' where w': "extends w1 w'"
      and c: "set (console (fst (fst (f w' (es ! j)))))
                \<subseteq> set (console (fst (fst (forEach f w1 es))))"
      using Cons.IH [of j w1] by blast
    have "extends w w'" by (rule extends_trans [OF w1 w'])
    moreover have "(e # es) ! i = es ! j" using Suc by simp
    ultimately have "extends w w' \<and>
        set (console (fst (fst (f w' ((e # es) ! i)))))
          \<subseteq> set (console (fst (fst (forEach f w (e # es)))))"
      using c by (simp only: rest simp_thms)
    then show ?thesis by (rule exI)
  qed
qed

lemma translateText_warns:
  assumes "i18n_key e = Some key" and "snd (getTranslation w key) = v"
    and "typeof v \<noteq> TString" and "truthy v"
  shows "WarnNotAString key v \<in> set (console (fst (translateText w e)))"
proof -
  obtain w1 where g: "getTranslation w key = (w1, v)"
    using assms(2) by (cases "getTranslation w key") simp
  show ?thesis using assms by (simp add: translateText_def g log_def)
qed

lemma translateText_unapplied:
  assumes "i18n_key e = Some key" and "snd (getTranslation w key) = v"
    and "typeof v \<noteq> TString"
  shows "snd (translateText w e) = e"
proof -
  obtain w1 where g: "getTranslation w key = (w1, v)"
    using assms(2) by (cases "getTranslation w key") simp
  show ?thesis using assms by (simp add: translateText_def g)
qed

text \<open>An empty translation is not assigned either, with or without variables.\<close>

lemma translateText_empty:
  assumes "i18n_key e = Some key" and "snd (getTranslation w key) = Data (JStr [])"
  shows "snd (translateText w e) = e"
proof -
  obtain w1 where g: "getTranslation w key = (w1, Data (JStr []))"
    using assms(2) by (cases "getTranslation w key") simp
  show ?thesis using assms(1) by (simp add: translateText_def g)
qed

lemma text_pass_console:
  "console (fst (pass (normally translateText) w)) =
     console (fst (fst (forEach (normally translateText) w (elements w))))"
  by (simp add: pass_def case_prod_beta)

lemma applyTranslations_console:
  "set (console (fst (pass (normally translateText) w)))
     \<subseteq> set (console (fst (applyTranslations w)))"
proof -
  have "page_update (fst (pass (normally translateText) w)) (fst (applyTranslations w))"
    unfolding applyTranslations_def
    by (rule attribute_passes_page_update) (rule page_update_refl)
  then show ?thesis by (rule page_update_fields)
qed

section \<open>The diagnostics a pass writes\<close>

lemma writes_diagnostics_refl: "writes_diagnostics w w"
  by (simp add: writes_diagnostics_def)

lemma writes_diagnostics_trans:
  "writes_diagnostics u v \<Longrightarrow> writes_diagnostics v w \<Longrightarrow> writes_diagnostics u w"
  unfolding writes_diagnostics_def by blast

lemma writes_diagnostics_log:
  "pass_diagnostic d \<Longrightarrow> writes_diagnostics w (log d w)"
  by (auto simp: writes_diagnostics_def log_def)

lemma getTranslation_diagnostics: "writes_diagnostics w (fst (getTranslation w key))"
  by (simp add: getTranslation_def writes_diagnostics_refl writes_diagnostics_log
      split: option.splits)

lemma getTranslation_diagnostics_pair:
  "getTranslation w key = (w1, t) \<Longrightarrow> writes_diagnostics w w1"
  using getTranslation_diagnostics [of w key] by simp

lemma assignInterpolated_diagnostics:
  "writes_diagnostics w (fst (assignInterpolated w key s payload e))"
  by (simp add: assignInterpolated_def writes_diagnostics_refl writes_diagnostics_log
      split: option.splits sum.splits)

lemma translateText_diagnostics: "writes_diagnostics w (fst (translateText w e))"
proof (cases "i18n_key e")
  case None
  then show ?thesis by (simp add: translateText_def writes_diagnostics_refl)
next
  case (Some key)
  obtain w1 t where g: "getTranslation w key = (w1, t)" by (cases "getTranslation w key")
  have e1: "writes_diagnostics w w1" using g by (rule getTranslation_diagnostics_pair)
  have "writes_diagnostics w1 (fst (translateText w e))"
    using Some g
    by (simp add: translateText_def Let_def writes_diagnostics_refl writes_diagnostics_log
        assignInterpolated_diagnostics split: option.splits)
  with e1 show ?thesis by (rule writes_diagnostics_trans)
qed

lemma translatePlaceholder_diagnostics:
  "writes_diagnostics w (fst (fst (translatePlaceholder w e)))"
  by (auto simp: translatePlaceholder_def Let_def writes_diagnostics_refl
      split: option.splits prod.splits sum.splits dest: getTranslation_diagnostics_pair)

lemma translateAlt_diagnostics:
  "writes_diagnostics w (fst (fst (translateAlt w e)))"
  by (auto simp: translateAlt_def Let_def writes_diagnostics_refl
      split: option.splits prod.splits sum.splits dest: getTranslation_diagnostics_pair)

lemma translateTitle_diagnostics:
  "writes_diagnostics w (fst (fst (translateTitle w e)))"
  by (auto simp: translateTitle_def Let_def writes_diagnostics_refl
      split: option.splits prod.splits sum.splits dest: getTranslation_diagnostics_pair)

lemma forEach_diagnostics:
  assumes "\<And>w e. writes_diagnostics w (fst (fst (f w e)))"
  shows "writes_diagnostics w (fst (fst (forEach f w es)))"
proof (induction es arbitrary: w)
  case Nil
  then show ?case by (simp add: writes_diagnostics_refl)
next
  case (Cons e es)
  obtain w1 e1 r where s: "f w e = ((w1, e1), r)" by (cases "f w e") auto
  have a: "writes_diagnostics w w1" using assms [of w e] s by simp
  show ?case
  proof (cases r)
    case (Some err)
    with s a show ?thesis by simp
  next
    case None
    have "fst (fst (forEach f w (e # es))) = fst (fst (forEach f w1 es))"
      using s None by (simp add: case_prod_beta)
    with a Cons.IH [of w1] show ?thesis by (metis writes_diagnostics_trans)
  qed
qed

lemma pass_diagnostics:
  assumes "\<And>w e. writes_diagnostics w (fst (fst (f w e)))"
  shows "writes_diagnostics w (fst (pass f w))"
  using forEach_diagnostics [of f w "elements w", OF assms]
  by (simp add: writes_diagnostics_def pass_def case_prod_beta)

lemma andThen_diagnostics:
  assumes "writes_diagnostics w (fst r)" and "\<And>u. writes_diagnostics u (fst (g u))"
  shows "writes_diagnostics w (fst (andThen r g))"
  using assms(1)
proof (rule andThen_preserves [where R = writes_diagnostics])
  show "writes_diagnostics u (fst (g u))" for u by (rule assms(2))
  show "writes_diagnostics a b \<Longrightarrow> writes_diagnostics b c \<Longrightarrow> writes_diagnostics a c"
    for a b c
    by (rule writes_diagnostics_trans)
qed

lemma text_pass_diagnostics:
  "writes_diagnostics w (fst (pass (normally translateText) w))"
  by (rule pass_diagnostics) (simp add: normally_def translateText_diagnostics)

lemma applyTranslations_diagnostics: "writes_diagnostics w (fst (applyTranslations w))"
  unfolding applyTranslations_def
  by (intro andThen_diagnostics text_pass_diagnostics pass_diagnostics
        translatePlaceholder_diagnostics translateAlt_diagnostics translateTitle_diagnostics)

lemma applyTranslations_no_falsy_warning:
  assumes "\<not> truthy v" and "WarnNotAString key v \<notin> set (console w)"
  shows "WarnNotAString key v \<notin> set (console (fst (applyTranslations w)))"
  using applyTranslations_diagnostics [of w] assms
  by (auto simp: writes_diagnostics_def)

section \<open>The language \<open>init\<close> settles on\<close>

lemma loadTranslations_currentLang:
  "currentLang (fst (loadTranslations w lang)) = currentLang w"
  "defaultLang (fst (loadTranslations w lang)) = defaultLang w"
  "supportedLanguages (fst (loadTranslations w lang)) = supportedLanguages w"
  by (simp_all add: loadTranslations_unfold split: option.splits)

lemma getUrlLanguage_fields:
  "defaultLang (fst (getUrlLanguage w)) = defaultLang w"
  "supportedLanguages (fst (getUrlLanguage w)) = supportedLanguages w"
  by (simp_all add: getUrlLanguage_def log_def split: option.splits)

lemma getUrlLanguage_supported:
  "snd (getUrlLanguage w) = Some l \<Longrightarrow> l \<noteq> [] \<and> l \<in> set (supportedLanguages w)"
  by (auto simp: getUrlLanguage_def split: if_splits option.splits)

lemma detectBrowserLanguage_supported:
  assumes "detectBrowserLanguage w = Inr b" and "defaultLang w \<in> set (supportedLanguages w)"
  shows "b \<in> set (supportedLanguages w)"
proof -
  have "find P xs = Some x \<Longrightarrow> x \<in> set xs" for P and xs :: "string list" and x
    by (auto simp: find_Some_iff)
  then show ?thesis
    using assms
    by (auto simp: detectBrowserLanguage_def js_or_string_def
        split: option.splits if_splits list.splits)
qed

text \<open>The language \<open>init\<close> settles on, when it returns.\<close>

lemma init_currentLang:
  assumes "init w = Inr w'" and "detectBrowserLanguage w = Inr b"
  shows "supportedLanguages w' = supportedLanguages w"
    and "currentLang w' =
      js_or_string (js_or (snd (getUrlLanguage w)) (js_or (getSavedLanguage w) (Some b)))
        (defaultLang w)"
proof -
  let ?w2 = "(fst (getUrlLanguage w))\<lparr>currentLang :=
      js_or_string (js_or (snd (getUrlLanguage w)) (js_or (getSavedLanguage w) (Some b)))
        (defaultLang (fst (getUrlLanguage w)))\<rparr>"
  let ?w3 = "fst (loadTranslations ?w2 (currentLang ?w2))"
  let ?w4 = "fst (applyTranslations ?w3)"
  have w': "w' = ?w4\<lparr>htmlLang := Some (currentLang ?w4),
      bodyClasses := classList_add ''i18n-ready''
        (classList_remove ''i18n-loading'' (bodyClasses ?w4))\<rparr>"
    using assms
    by (simp add: init_def Let_def case_prod_beta split: option.splits)
  show "supportedLanguages w' = supportedLanguages w"
    by (simp add: w' page_update_fields [OF applyTranslations_page_update]
        loadTranslations_currentLang getUrlLanguage_fields)
  show "currentLang w' =
      js_or_string (js_or (snd (getUrlLanguage w)) (js_or (getSavedLanguage w) (Some b)))
        (defaultLang w)"
    by (simp add: w' page_update_fields [OF applyTranslations_page_update]
        loadTranslations_currentLang getUrlLanguage_fields)
qed

text \<open>
  With a saved preference that is absent, empty or supported, the language \<open>init\<close>
  applies is a supported one.
\<close>

lemma init_language_supported:
  assumes "init w = Inr w'"
    and "defaultLang w \<in> set (supportedLanguages w)"
    and "getSavedLanguage w = None \<or> getSavedLanguage w = Some []
         \<or> (\<exists>l. getSavedLanguage w = Some l \<and> l \<in> set (supportedLanguages w))"
  shows "currentLang w' \<in> set (supportedLanguages w')"
proof -
  obtain b where d: "detectBrowserLanguage w = Inr b"
    using assms(1) by (cases "detectBrowserLanguage w") (simp_all add: init_def)
  have s: "supportedLanguages w' = supportedLanguages w"
    and c: "currentLang w' =
      js_or_string (js_or (snd (getUrlLanguage w)) (js_or (getSavedLanguage w) (Some b)))
        (defaultLang w)"
    using init_currentLang [OF assms(1) d] by simp_all
  have b: "b \<in> set (supportedLanguages w)"
    by (rule detectBrowserLanguage_supported [OF d assms(2)])
  have "currentLang w' \<in> set (supportedLanguages w)"
    using assms(2,3) b getUrlLanguage_supported [of w]
    unfolding c by (cases "snd (getUrlLanguage w)") (auto simp: js_or_def js_or_string_def)
  with s show ?thesis by simp
qed

section \<open>Lookups away from the inherited names\<close>

lemma lookup_property_own:
  assumes "\<not> inherited_name k" and "truthy (Data d)" and "typeof (Data d) = TObject"
  shows "lookup_property (Data d) k = own_property (Data d) k"
proof -
  have a: "proto_chain ArrayPrototype k = None" and p: "k \<noteq> ''__proto__''"
    using assms(1) by (simp_all add: inherited_name_def)
  have o: "proto_chain ObjectPrototype k = None"
    using a by (simp add: proto_chain_def split: option.splits)
  show ?thesis
    using assms(2,3) a o p
    by (cases d) (simp_all add: lookup_property_def split: option.splits)
qed

lemma own_property_data:
  "own_property (Data d) k = Some v \<Longrightarrow> \<exists>d'. v = Data d'"
  by (cases d) (auto split: if_splits)

lemma walk_own_walk:
  "\<forall>k\<in>set ks. \<not> inherited_name k \<Longrightarrow> walk (Data d) ks = own_walk (Data d) ks"
proof (induction ks arbitrary: d)
  case Nil
  then show ?case by simp
next
  case (Cons k ks)
  show ?case
  proof (cases "truthy (Data d) \<and> typeof (Data d) = TObject")
    case False
    then show ?thesis by auto
  next
    case True
    then have l: "lookup_property (Data d) k = own_property (Data d) k"
      using Cons.prems by (simp add: lookup_property_own)
    have n: "Data d \<noteq> Data JNull" using True by auto
    show ?thesis
    proof (cases "own_property (Data d) k")
      case None
      with True l show ?thesis by (simp add: has_property_def)
    next
      case (Some v)
      then obtain d' where v: "v = Data d'" using own_property_data by blast
      have "walk (Data d') ks = own_walk (Data d') ks"
        using Cons.prems by (intro Cons.IH) simp
      with True l n Some v show ?thesis
        by (simp add: has_property_def get_property_def)
    qed
  qed
qed

text \<open>
  Away from the inherited names \<open>getTranslation\<close> is the own-property lookup: the value at
  the path, or the key when a segment is no member of the object reached.
\<close>

lemma getTranslation_own_walk:
  assumes "\<forall>k\<in>set (split CHR ''.'' key). \<not> inherited_name k"
  shows "snd (getTranslation w key) =
    (case own_walk (Data (translationTree w)) (split CHR ''.'' key) of
       Some v \<Rightarrow> v
     | None \<Rightarrow> Data (JStr key))"
  using walk_own_walk [OF assms, of "translationTree w"]
  by (simp add: getTranslation_def split: option.splits)

text \<open>
  Likewise the callback of \<open>interpolate\<close>, for a variables object: the member's string
  form, or the placeholder itself when the object has no such member.
\<close>

lemma substitute_own:
  assumes "\<not> inherited_name key"
  shows "substitute (Data (JObj vars)) key =
    (case map_of vars key of
       None \<Rightarrow> Inr (''{{'' @ key @ ''}}'')
     | Some v \<Rightarrow> to_string (Data v))"
  using lookup_property_own [OF assms, of "JObj vars"]
  by (simp add: substitute_def get_property_def split: option.splits)

section \<open>Facts about the concrete pages\<close>

lemma fetched_englishOnly:
  "fetched (emptyPage\<lparr>server := englishOnly\<rparr>) ''en'' = Some (JObj [(''greeting'', JStr ''Hello'')])"
  "fetched (emptyPage\<lparr>server := englishOnly\<rparr>) ''zh-TW'' = None"
  by (simp_all add: fetched_def englishOnly_def translationPath_def emptyPage_def)

lemma fetched_notFound: "fetched (emptyPage\<lparr>server := notFound\<rparr>) lang = None"
  by (simp add: fetched_def notFound_def)

lemma fetched_emptyPage: "fetched emptyPage lang = None"
  by (simp add: fetched_def emptyPage_def constructor_def)

lemma emptyPage_fields:
  "defaultLang emptyPage = ''en''"
  "currentLang emptyPage = ''en''"
  "supportedLanguages emptyPage = [''en'', ''zh-TW'', ''zh-CN'']"
  "translationTree emptyPage = JObj []"
  "storageKey emptyPage = ''mezzofy_language''"
  "requests emptyPage = []"
  "console emptyPage = []"
  "elements emptyPage = []"
  "urlLang emptyPage = None"
  "localStorage emptyPage = Map.empty"
  "setItemThrows emptyPage = False"
  "getItemThrows emptyPage = False"
  "urlWriteThrows emptyPage = False"
  "urlReadThrows emptyPage = False"
  "navigatorLanguage emptyPage = Some ''en-US''"
  "navigatorUserLanguage emptyPage = None"
  by (simp_all add: emptyPage_def constructor_def)

section \<open>The claims\<close>

subsection \<open>Claim C1: the initial language\<close>

text \<open>
  Claim C1. The claim says that \<open>init\<close> uses the stored preference only when it is in the
  supported set, so that only supported codes are applied. \<open>getUrlLanguage\<close> checks its
  value against the supported set; \<open>getSavedLanguage\<close> does not, and \<open>init\<close> applies what it
  returns. With \<open>fr\<close> in the storage slot and no URL parameter, \<open>init\<close> makes \<open>fr\<close> the
  current language and the \<open>lang\<close> attribute, over the English tree it fell back to.
\<close>

theorem init_applies_unsupported_saved_language:
  "urlLang staleStoragePage = None
   \<and> getSavedLanguage staleStoragePage = Some ''fr''
   \<and> ''fr'' \<notin> set (supportedLanguages staleStoragePage)
   \<and> detectBrowserLanguage staleStoragePage = Inr ''en''
   \<and> map_sum id (\<lambda>w. (getCurrentLanguage w, htmlLang w, translationTree w)) (init staleStoragePage)
       = Inr (''fr'', Some ''fr'', JObj [(''greeting'', JStr ''Hello'')])"
  by code_simp

subsection \<open>Claim C2: an unsupported language\<close>

text \<open>
  Claim C2. For a language outside the supported set, \<open>switchLanguage\<close> returns \<open>false\<close>
  and changes nothing but the console, where it writes its warning: the current
  language, the tree, the storage and the URL parameter are as before.
\<close>

theorem switchLanguage_unsupported_no_change:
  assumes "lang \<notin> set (supportedLanguages w)"
  shows "snd (switchLanguage w lang) = Inr False
    \<and> fst (switchLanguage w lang) = w\<lparr>console := console w @ [WarnNotSupported lang]\<rparr>
    \<and> getCurrentLanguage (fst (switchLanguage w lang)) = getCurrentLanguage w
    \<and> translationTree (fst (switchLanguage w lang)) = translationTree w
    \<and> localStorage (fst (switchLanguage w lang)) = localStorage w
    \<and> urlLang (fst (switchLanguage w lang)) = urlLang w"
  using assms by (simp add: switchLanguage_def log_def getCurrentLanguage_def)

theorem switchLanguage_unsupported_no_change_witness:
  "''fr'' \<notin> set (supportedLanguages emptyPage)
   \<and> snd (switchLanguage emptyPage ''fr'') = Inr False
   \<and> getCurrentLanguage (fst (switchLanguage emptyPage ''fr'')) = ''en''
   \<and> translationTree (fst (switchLanguage emptyPage ''fr'')) = JObj []
   \<and> localStorage (fst (switchLanguage emptyPage ''fr'')) = localStorage emptyPage
   \<and> urlLang (fst (switchLanguage emptyPage ''fr'')) = None"
  using switchLanguage_unsupported_no_change [of "''fr''" emptyPage]
  by (simp add: emptyPage_fields getCurrentLanguage_def)

subsection \<open>Claim C3: loading with fallback\<close>

text \<open>
  Claim C3. \<open>loadTranslations\<close> replaces the tree in one assignment when the fetch
  succeeds. When it fails and \<open>lang\<close> is not the default language, it fetches the default
  language, once: the requests made are exactly the two paths. When the default language
  fails as well (or was the one asked for), the tree held before is kept and the result
  is \<open>false\<close>.
\<close>

theorem loadTranslations_fallback:
  "(fetched w lang = Some tree \<longrightarrow>
      loadTranslations w lang =
        (w\<lparr>requests := requests w @ [translationPath lang], translationTree := tree\<rparr>, True))
   \<and> (fetched w lang = None \<and> lang \<noteq> defaultLang w \<and> fetched w (defaultLang w) = Some tree \<longrightarrow>
      snd (loadTranslations w lang) = True
      \<and> translationTree (fst (loadTranslations w lang)) = tree
      \<and> requests (fst (loadTranslations w lang)) =
          requests w @ [translationPath lang, translationPath (defaultLang w)])
   \<and> (fetched w lang = None \<and> lang \<noteq> defaultLang w \<and> fetched w (defaultLang w) = None \<longrightarrow>
      snd (loadTranslations w lang) = False
      \<and> translationTree (fst (loadTranslations w lang)) = translationTree w
      \<and> requests (fst (loadTranslations w lang)) =
          requests w @ [translationPath lang, translationPath (defaultLang w)])
   \<and> (fetched w lang = None \<and> lang = defaultLang w \<longrightarrow>
      snd (loadTranslations w lang) = False
      \<and> translationTree (fst (loadTranslations w lang)) = translationTree w
      \<and> requests (fst (loadTranslations w lang)) = requests w @ [translationPath lang])"
  by (auto simp: loadTranslations_unfold)

theorem loadTranslations_fallback_witness:
  "fetched (emptyPage\<lparr>server := englishOnly\<rparr>) ''zh-TW'' = None
   \<and> ''zh-TW'' \<noteq> defaultLang (emptyPage\<lparr>server := englishOnly\<rparr>)
   \<and> fetched (emptyPage\<lparr>server := englishOnly\<rparr>) (defaultLang (emptyPage\<lparr>server := englishOnly\<rparr>))
       = Some (JObj [(''greeting'', JStr ''Hello'')])
   \<and> snd (loadTranslations (emptyPage\<lparr>server := englishOnly\<rparr>) ''zh-TW'') = True
   \<and> translationTree (fst (loadTranslations (emptyPage\<lparr>server := englishOnly\<rparr>) ''zh-TW''))
       = JObj [(''greeting'', JStr ''Hello'')]
   \<and> requests (fst (loadTranslations (emptyPage\<lparr>server := englishOnly\<rparr>) ''zh-TW''))
       = [''i18n/translations/zh-TW.json'', ''i18n/translations/en.json'']
   \<and> fetched emptyPage ''zh-CN'' = None
   \<and> fetched emptyPage (defaultLang emptyPage) = None
   \<and> snd (loadTranslations emptyPage ''zh-CN'') = False
   \<and> translationTree (fst (loadTranslations emptyPage ''zh-CN'')) = JObj []
   \<and> snd (loadTranslations emptyPage ''en'') = False
   \<and> requests (fst (loadTranslations emptyPage ''en'')) = [''i18n/translations/en.json'']
   \<and> snd (loadTranslations (emptyPage\<lparr>server := englishOnly\<rparr>) ''en'') = True
   \<and> fetched (emptyPage\<lparr>server := notFound\<rparr>) ''zh-CN'' = None
   \<and> fetched (emptyPage\<lparr>server := notFound\<rparr>) ''en'' = None
   \<and> snd (loadTranslations (emptyPage\<lparr>server := notFound\<rparr>) ''zh-CN'') = False
   \<and> translationTree (fst (loadTranslations (emptyPage\<lparr>server := notFound\<rparr>) ''zh-CN'')) = JObj []"
  using loadTranslations_fallback [of "emptyPage\<lparr>server := notFound\<rparr>" "''zh-CN''" JNull]
        loadTranslations_fallback [of "emptyPage\<lparr>server := englishOnly\<rparr>" "''zh-TW''"
          "JObj [(''greeting'', JStr ''Hello'')]"]
        loadTranslations_fallback [of "emptyPage\<lparr>server := englishOnly\<rparr>" "''en''"
          "JObj [(''greeting'', JStr ''Hello'')]"]
        loadTranslations_fallback [of emptyPage "''zh-CN''" JNull]
        loadTranslations_fallback [of emptyPage "''en''" JNull]
  by (simp add: fetched_englishOnly fetched_emptyPage fetched_notFound emptyPage_fields
      translationPath_def)

subsection \<open>Claim C4: selected language and loaded tree\<close>

text \<open>
  Claim C4. When a supported language other than the default fails to load and the
  default language loads, the tree afterwards is the default language's while
  \<open>getCurrentLanguage\<close> reports the language asked for.
\<close>

theorem switchLanguage_fallback_mismatch:
  assumes "lang \<in> set (supportedLanguages w)"
    and "lang \<noteq> defaultLang w"
    and "fetched w lang = None"
    and "fetched w (defaultLang w) = Some tree"
  shows "translationTree (fst (switchLanguage w lang)) = tree
    \<and> getCurrentLanguage (fst (switchLanguage w lang)) = lang
    \<and> getCurrentLanguage (fst (switchLanguage w lang)) \<noteq> defaultLang (fst (switchLanguage w lang))"
  using assms
  by (simp add: switchLanguage_supported getCurrentLanguage_def updateUrlLanguage_def log_def
      afterApply_fields afterLoad_tree split: option.splits)

theorem switchLanguage_fallback_mismatch_witness:
  "''zh-TW'' \<in> set (supportedLanguages (emptyPage\<lparr>server := englishOnly\<rparr>))
   \<and> ''zh-TW'' \<noteq> defaultLang (emptyPage\<lparr>server := englishOnly\<rparr>)
   \<and> fetched (emptyPage\<lparr>server := englishOnly\<rparr>) ''zh-TW'' = None
   \<and> fetched (emptyPage\<lparr>server := englishOnly\<rparr>) ''en'' = Some (JObj [(''greeting'', JStr ''Hello'')])
   \<and> translationTree (fst (switchLanguage (emptyPage\<lparr>server := englishOnly\<rparr>) ''zh-TW''))
       = JObj [(''greeting'', JStr ''Hello'')]
   \<and> getCurrentLanguage (fst (switchLanguage (emptyPage\<lparr>server := englishOnly\<rparr>) ''zh-TW'')) = ''zh-TW''"
  using switchLanguage_fallback_mismatch [of "''zh-TW''" "emptyPage\<lparr>server := englishOnly\<rparr>"
          "JObj [(''greeting'', JStr ''Hello'')]"]
  by (simp add: fetched_englishOnly emptyPage_fields)

subsection \<open>Claim C5: lookup\<close>

text \<open>
  Claim C5. The two lookups the claim gives as examples come out as it says. A segment
  that is absent from the tree but names an inherited property is found by \<open>k in value\<close>:
  the lookup returns the built-in function, not the key.
\<close>

theorem getTranslation_inherited_property:
  "snd (getTranslation
          (emptyPage\<lparr>translationTree := JObj [(''a'', JObj [(''b'', JObj [(''c'', JStr ''x'')])])]\<rparr>)
          ''a.b.c'') = Data (JStr ''x'')
   \<and> snd (getTranslation (emptyPage\<lparr>translationTree := JObj [(''a'', JObj [(''b'', JObj [])])]\<rparr>)
          ''a.b.c'') = Data (JStr ''a.b.c'')
   \<and> map_of [(''c'', JStr ''x'')] ''constructor'' = None
   \<and> snd (getTranslation
          (emptyPage\<lparr>translationTree := JObj [(''a'', JObj [(''b'', JObj [(''c'', JStr ''x'')])])]\<rparr>)
          ''a.b.constructor'') = Constructor ObjectPrototype
   \<and> snd (getTranslation
          (emptyPage\<lparr>translationTree := JObj [(''a'', JObj [(''b'', JObj [(''c'', JStr ''x'')])])]\<rparr>)
          ''a.b.constructor'') \<noteq> Data (JStr ''a.b.constructor'')
   \<and> snd (getTranslation (emptyPage\<lparr>translationTree := JObj []\<rparr>) ''toString'')
       = Method ObjectPrototype ''toString''"
  by code_simp

subsection \<open>Claim C6: interpolation\<close>

text \<open>
  Claim C6. The two interpolations the claim gives as examples come out as it says. A
  placeholder with no matching variable whose name is an inherited property is not left
  in place: \<open>vars[key]\<close> is the inherited value, and its string form is substituted.
\<close>

theorem interpolate_inherited_property:
  "interpolate ''Hi {{name}}'' (Data (JObj [(''name'', JStr ''Sam'')])) = Inr ''Hi Sam''
   \<and> interpolate ''Hi {{name}}'' (Data (JObj [])) = Inr ''Hi {{name}}''
   \<and> map_of ([] :: (string \<times> json) list) ''constructor'' = None
   \<and> interpolate ''Hi {{constructor}}'' (Data (JObj []))
       = Inr ''Hi function Object() { [native code] }''
   \<and> interpolate ''Hi {{constructor}}'' (Data (JObj [])) \<noteq> Inr ''Hi {{constructor}}''
   \<and> interpolate ''Hi {{__proto__}}'' (Data (JObj [])) = Inr ''Hi [object Object]''"
  by code_simp

subsection \<open>Claim C7: values that are not strings\<close>

text \<open>
  Claim C7, amended. In a DOM application pass, a text-translation element whose key
  resolves to a value that is not a string is left as it was: nothing is assigned to it
  and the value is not converted to a string. The diagnostic is written when the value
  is truthy; for a falsy value (\<open>null\<close>, \<open>false\<close>, \<open>0\<close>) the pass writes none. The
  statement is about text-translation elements only and says nothing about the
  placeholder, alt and title passes. It holds of the state \<open>applyTranslations\<close> leaves,
  whether it returns or raises in a later pass.
\<close>

theorem nonstring_text_left_unapplied:
  assumes "i < length (elements w)"
    and "i18n_key (elements w ! i) = Some key"
    and "snd (getTranslation w key) = v"
    and "typeof v \<noteq> TString"
  shows "content (elements (fst (applyTranslations w)) ! i) = content (elements w ! i)
    \<and> (truthy v \<longrightarrow> WarnNotAString key v \<in> set (console (fst (applyTranslations w))))
    \<and> (\<not> truthy v \<and> WarnNotAString key v \<notin> set (console w) \<longrightarrow>
          WarnNotAString key v \<notin> set (console (fst (applyTranslations w))))"
proof (intro conjI)
  show "content (elements (fst (applyTranslations w)) ! i) = content (elements w ! i)"
    using assms by (simp add: applyTranslations_content translateText_unapplied)
next
  show "\<not> truthy v \<and> WarnNotAString key v \<notin> set (console w) \<longrightarrow>
      WarnNotAString key v \<notin> set (console (fst (applyTranslations w)))"
    by (simp add: applyTranslations_no_falsy_warning)
next
  show "truthy v \<longrightarrow> WarnNotAString key v \<in> set (console (fst (applyTranslations w)))"
  proof
    assume tr: "truthy v"
    have "\<exists>w'. extends w w' \<and>
        set (console (fst (fst (normally translateText w' (elements w ! i)))))
          \<subseteq> set (console (fst (fst (forEach (normally translateText) w (elements w)))))"
      using assms(1)
      by (intro forEach_console) (simp_all add: normally_def translateText_extends)
    then obtain w' where w': "extends w w'"
      and c: "set (console (fst (translateText w' (elements w ! i))))
                \<subseteq> set (console (fst (pass (normally translateText) w)))"
      by (auto simp: normally_def text_pass_console)
    have "snd (getTranslation w' key) = v"
      using assms(3) getTranslation_value [of w' w key] extends_same_sources [OF w']
      by (simp add: same_sources_def)
    then have "WarnNotAString key v \<in> set (console (fst (translateText w' (elements w ! i))))"
      using assms(2,4) tr by (intro translateText_warns)
    with c have "WarnNotAString key v \<in> set (console (fst (pass (normally translateText) w)))"
      by auto
    then show "WarnNotAString key v \<in> set (console (fst (applyTranslations w)))"
      using applyTranslations_console [of w] by blast
  qed
qed

text \<open>
  The claim as stated fails twice on \<open>subtreePage\<close>: the subtree is handed to
  \<open>setAttribute\<close> and becomes the placeholder \<open>[object Object]\<close>, and neither element
  gets a diagnostic.
\<close>

theorem nonstring_counterexample:
  "snd (getTranslation subtreePage ''nav'') = Data (JObj [(''home'', JStr ''Home'')])
   \<and> typeof (snd (getTranslation subtreePage ''nav'')) \<noteq> TString
   \<and> i18n_placeholder (elements subtreePage ! 0) = Some ''nav''
   \<and> placeholder (elements subtreePage ! 0) = None
   \<and> placeholder (elements (fst (applyTranslations subtreePage)) ! 0)
       = Some ''[object Object]''
   \<and> snd (getTranslation subtreePage ''empty'') = Data JNull
   \<and> typeof (snd (getTranslation subtreePage ''empty'')) \<noteq> TString
   \<and> i18n_key (elements subtreePage ! 1) = Some ''empty''
   \<and> snd (applyTranslations subtreePage) = None
   \<and> console (fst (applyTranslations subtreePage)) = []"
  by code_simp

theorem nonstring_text_left_unapplied_witness:
  "0 < length (elements menuPage)
   \<and> i18n_key (elements menuPage ! 0) = Some ''nav''
   \<and> snd (getTranslation menuPage ''nav'') = Data (JObj [(''home'', JStr ''Home'')])
   \<and> typeof (Data (JObj [(''home'', JStr ''Home'')])) \<noteq> TString
   \<and> content (elements (fst (applyTranslations menuPage)) ! 0) = Markup ''Menu''
   \<and> WarnNotAString ''nav'' (Data (JObj [(''home'', JStr ''Home'')]))
       \<in> set (console (fst (applyTranslations menuPage)))
   \<and> 1 < length (elements subtreePage)
   \<and> i18n_key (elements subtreePage ! 1) = Some ''empty''
   \<and> snd (getTranslation subtreePage ''empty'') = Data JNull
   \<and> typeof (Data JNull) \<noteq> TString
   \<and> content (elements (fst (applyTranslations subtreePage)) ! 1) = Markup ''Old''
   \<and> WarnNotAString ''empty'' (Data JNull) \<notin> set (console (fst (applyTranslations subtreePage)))"
proof -
  have a: "0 < length (elements menuPage)"
    and b: "i18n_key (elements menuPage ! 0) = Some ''nav''"
    and c: "content (elements menuPage ! 0) = Markup ''Menu''"
    by (simp_all add: menuPage_def plainElement_def)
  have v: "snd (getTranslation menuPage ''nav'') = Data (JObj [(''home'', JStr ''Home'')])"
    by code_simp
  have a': "1 < length (elements subtreePage)"
    and b': "i18n_key (elements subtreePage ! 1) = Some ''empty''"
    and c': "content (elements subtreePage ! 1) = Markup ''Old''"
    and d': "console subtreePage = []"
    by (simp_all add: subtreePage_def plainElement_def emptyPage_fields)
  have v': "snd (getTranslation subtreePage ''empty'') = Data JNull"
    by code_simp
  show ?thesis
    using nonstring_text_left_unapplied [OF a b v] a b c v
      nonstring_text_left_unapplied [OF a' b' v'] a' b' c' d' v'
    by simp
qed

subsection \<open>Claim C8: storage and URL\<close>

text \<open>
  Claim C8, amended. A successful \<open>switchLanguage\<close>, one that returns \<open>true\<close>, has
  written \<open>lang\<close> to the storage slot, or has written a warning and left the storage
  alone when \<open>setItem\<close> raised. It has then updated the URL, provided the update did not
  raise: the parameter is removed for the default language and set to \<open>lang\<close> for any
  other. A URL update that raises is swallowed with a warning as well, and the parameter
  stays as it was.
\<close>

theorem switchLanguage_persists:
  assumes "snd (switchLanguage w lang) = Inr True"
  shows "(if setItemThrows w
        then localStorage (fst (switchLanguage w lang)) = localStorage w
           \<and> WarnUnableToSave \<in> set (console (fst (switchLanguage w lang)))
        else localStorage (fst (switchLanguage w lang)) = (localStorage w)(storageKey w \<mapsto> lang))
    \<and> (if urlWriteThrows w
        then urlLang (fst (switchLanguage w lang)) = urlLang w
           \<and> WarnUrlUpdate \<in> set (console (fst (switchLanguage w lang)))
        else urlLang (fst (switchLanguage w lang)) =
               (if lang \<noteq> defaultLang w then Some lang else None))"
proof -
  have s: "lang \<in> set (supportedLanguages w)" and r: "applyRaises w lang = None"
    using switchLanguage_returns_true [OF assms] by simp_all
  show ?thesis
    by (simp add: switchLanguage_supported [OF s] r updateUrlLanguage_def log_def
        afterApply_fields(1-5) afterApply_storage afterApply_console)
qed

text \<open>
  The claim as stated fails where the URL update raises: the page was opened with
  \<open>lang=zh-TW\<close>, the switch to the default language succeeds, and the parameter is still
  there.
\<close>

theorem switchLanguage_url_counterexample:
  "snd (switchLanguage (emptyPage\<lparr>urlLang := Some ''zh-TW'', urlWriteThrows := True\<rparr>) ''en'')
     = Inr True
   \<and> ''en'' = defaultLang (emptyPage\<lparr>urlLang := Some ''zh-TW'', urlWriteThrows := True\<rparr>)
   \<and> urlLang (fst (switchLanguage (emptyPage\<lparr>urlLang := Some ''zh-TW'', urlWriteThrows := True\<rparr>) ''en''))
       = Some ''zh-TW''"
  by code_simp

theorem switchLanguage_persists_witness:
  "snd (switchLanguage emptyPage ''zh-TW'') = Inr True
   \<and> localStorage (fst (switchLanguage emptyPage ''zh-TW'')) ''mezzofy_language'' = Some ''zh-TW''
   \<and> urlLang (fst (switchLanguage emptyPage ''zh-TW'')) = Some ''zh-TW''
   \<and> snd (switchLanguage (greetingPage\<lparr>urlLang := Some ''zh-CN''\<rparr>) ''en'') = Inr True
   \<and> urlLang (fst (switchLanguage (greetingPage\<lparr>urlLang := Some ''zh-CN''\<rparr>) ''en'')) = None
   \<and> snd (switchLanguage (emptyPage\<lparr>setItemThrows := True\<rparr>) ''zh-CN'') = Inr True
   \<and> localStorage (fst (switchLanguage (emptyPage\<lparr>setItemThrows := True\<rparr>) ''zh-CN''))
       ''mezzofy_language'' = None
   \<and> WarnUnableToSave \<in> set (console (fst (switchLanguage (emptyPage\<lparr>setItemThrows := True\<rparr>) ''zh-CN'')))"
proof -
  have a: "snd (switchLanguage emptyPage ''zh-TW'') = Inr True"
    and b: "snd (switchLanguage (greetingPage\<lparr>urlLang := Some ''zh-CN''\<rparr>) ''en'') = Inr True"
    and c: "snd (switchLanguage (emptyPage\<lparr>setItemThrows := True\<rparr>) ''zh-CN'') = Inr True"
    by code_simp+
  have g: "defaultLang (greetingPage\<lparr>urlLang := Some ''zh-CN''\<rparr>) = ''en''"
    "urlWriteThrows (greetingPage\<lparr>urlLang := Some ''zh-CN''\<rparr>) = False"
    by (simp_all add: greetingPage_def emptyPage_fields)
  show ?thesis
    using switchLanguage_persists [OF a] switchLanguage_persists [OF b]
      switchLanguage_persists [OF c] a b c g
    by (simp add: emptyPage_fields)
qed

subsection \<open>Claim C9: markup or plain text\<close>

text \<open>
  Claim C9, amended. For a text-translation element whose key resolves to a string:
  when the string is not empty and the element has no variables payload (the attribute
  is absent or empty), the string is assigned as markup if it contains \<open><\<close>, as plain
  text otherwise; when the string is empty, nothing is assigned and the element shows
  what it showed, with or without a variables payload. Both hold of the state
  \<open>applyTranslations\<close> leaves, whether it returns or raises in a later pass.
\<close>

theorem text_assignment_markup_or_plain:
  assumes "i < length (elements w)"
    and "i18n_key (elements w ! i) = Some key"
    and "snd (getTranslation w key) = Data (JStr s)"
  shows "(s \<noteq> [] \<and>
          (i18n_vars (elements w ! i) = None \<or> i18n_vars (elements w ! i) = Some []) \<longrightarrow>
          content (elements (fst (applyTranslations w)) ! i) =
            (if CHR ''<'' \<in> set s then Markup s else PlainText s))
    \<and> (s = [] \<longrightarrow>
          content (elements (fst (applyTranslations w)) ! i) = content (elements w ! i))"
proof (intro conjI impI)
  assume a: "s \<noteq> [] \<and>
    (i18n_vars (elements w ! i) = None \<or> i18n_vars (elements w ! i) = Some [])"
  obtain w1 where g: "getTranslation w key = (w1, Data (JStr s))"
    using assms(3) by (cases "getTranslation w key") simp
  have "content (snd (translateText w (elements w ! i))) =
      (if CHR ''<'' \<in> set s then Markup s else PlainText s)"
    using assms(2) a by (auto simp: translateText_def g assignTranslation_def)
  then show "content (elements (fst (applyTranslations w)) ! i) =
      (if CHR ''<'' \<in> set s then Markup s else PlainText s)"
    using assms(1) by (simp add: applyTranslations_content)
next
  assume "s = []"
  then have "snd (translateText w (elements w ! i)) = elements w ! i"
    using assms(2,3) by (simp add: translateText_empty)
  then show "content (elements (fst (applyTranslations w)) ! i) = content (elements w ! i)"
    using assms(1) by (simp add: applyTranslations_content)
qed

text \<open>
  The empty string is a string without \<open><\<close>, and it is not assigned: the guard
  \<open>translation && ...\<close> is false for it, and the element keeps what it showed.
\<close>

theorem text_assignment_counterexample:
  "2 < length (elements greetingPage)
   \<and> i18n_key (elements greetingPage ! 2) = Some ''blank''
   \<and> i18n_vars (elements greetingPage ! 2) = None
   \<and> snd (getTranslation greetingPage ''blank'') = Data (JStr [])
   \<and> content (elements (fst (applyTranslations greetingPage)) ! 2) = Markup ''Old blank''
   \<and> content (elements (fst (applyTranslations greetingPage)) ! 2) \<noteq> PlainText []"
  by code_simp

theorem text_assignment_markup_or_plain_witness:
  "i18n_key (elements greetingPage ! 0) = Some ''title''
   \<and> i18n_vars (elements greetingPage ! 0) = None
   \<and> snd (getTranslation greetingPage ''title'') = Data (JStr ''Welcome'')
   \<and> content (elements (fst (applyTranslations greetingPage)) ! 0) = PlainText ''Welcome''
   \<and> i18n_key (elements greetingPage ! 1) = Some ''lead''
   \<and> i18n_vars (elements greetingPage ! 1) = Some []
   \<and> snd (getTranslation greetingPage ''lead'') = Data (JStr ''Hello <b>you</b>'')
   \<and> content (elements (fst (applyTranslations greetingPage)) ! 1) = Markup ''Hello <b>you</b>''
   \<and> i18n_key (elements greetingPage ! 2) = Some ''blank''
   \<and> i18n_key (elements greetingPage ! 3) = Some ''blank''
   \<and> i18n_vars (elements greetingPage ! 3) = Some ''{}''
   \<and> snd (getTranslation greetingPage ''blank'') = Data (JStr [])
   \<and> content (elements (fst (applyTranslations greetingPage)) ! 2) = Markup ''Old blank''
   \<and> content (elements (fst (applyTranslations greetingPage)) ! 3) = Markup ''Old count''"
proof -
  have l: "0 < length (elements greetingPage)" "1 < length (elements greetingPage)"
      "2 < length (elements greetingPage)" "3 < length (elements greetingPage)"
    and k: "i18n_key (elements greetingPage ! 0) = Some ''title''"
      "i18n_key (elements greetingPage ! 1) = Some ''lead''"
      "i18n_key (elements greetingPage ! 2) = Some ''blank''"
      "i18n_key (elements greetingPage ! 3) = Some ''blank''"
    and p: "i18n_vars (elements greetingPage ! 0) = None"
      "i18n_vars (elements greetingPage ! 1) = Some []"
      "i18n_vars (elements greetingPage ! 3) = Some ''{}''"
    and c: "content (elements greetingPage ! 2) = Markup ''Old blank''"
      "content (elements greetingPage ! 3) = Markup ''Old count''"
    by (simp_all add: greetingPage_def plainElement_def)
  have v: "snd (getTranslation greetingPage ''title'') = Data (JStr ''Welcome'')"
    "snd (getTranslation greetingPage ''lead'') = Data (JStr ''Hello <b>you</b>'')"
    "snd (getTranslation greetingPage ''blank'') = Data (JStr [])"
    by code_simp+
  show ?thesis
    using text_assignment_markup_or_plain [OF l(1) k(1) v(1)]
      text_assignment_markup_or_plain [OF l(2) k(2) v(2)]
      text_assignment_markup_or_plain [OF l(3) k(3) v(3)]
      text_assignment_markup_or_plain [OF l(4) k(4) v(3)] k p c v
    by simp
qed

subsection \<open>Claim C10: the result of a switch\<close>

text \<open>
  Claim C10. The claim says that \<open>switchLanguage\<close> returns \<open>true\<close> for every supported
  language. The call never returns \<open>false\<close> for one, and the result of the load is not
  looked at (\<open>switchLanguage_result\<close>), but the call does not always return: the
  attribute passes hand \<open>setAttribute\<close> whatever truthy value the key names, without the
  \<open>typeof\<close> test of the text pass. On \<open>methodsPage\<close> the load of \<open>zh-TW\<close> succeeds, the
  placeholder key names an object that has no string form, \<open>setAttribute\<close> raises, and
  the call ends there: no \<open>true\<close>, the page left at opacity \<open>0.7\<close>, the \<open>lang\<close>
  attribute and the URL untouched, no event. On \<open>methodsOffline\<close> both loads fail, the
  tree held stays, and the call ends the same way.
\<close>

theorem switchLanguage_rejects_on_unconvertible_value:
  "''zh-TW'' \<in> set (supportedLanguages methodsPage)
   \<and> fetched methodsPage ''zh-TW''
       = Some (JObj [(''methods'', JObj [(''toString'', JStr ''Converts to text'')])])
   \<and> snd (switchLanguage methodsPage ''zh-TW'') = Inl TypeError
   \<and> snd (switchLanguage methodsPage ''zh-TW'') \<noteq> Inr True
   \<and> getCurrentLanguage (fst (switchLanguage methodsPage ''zh-TW'')) = ''zh-TW''
   \<and> bodyOpacity (fst (switchLanguage methodsPage ''zh-TW'')) = Some ''0.7''
   \<and> htmlLang (fst (switchLanguage methodsPage ''zh-TW'')) = None
   \<and> urlLang (fst (switchLanguage methodsPage ''zh-TW'')) = None
   \<and> events (fst (switchLanguage methodsPage ''zh-TW'')) = []
   \<and> ''zh-CN'' \<in> set (supportedLanguages methodsOffline)
   \<and> fetched methodsOffline ''zh-CN'' = None
   \<and> fetched methodsOffline (defaultLang methodsOffline) = None
   \<and> snd (switchLanguage methodsOffline ''zh-CN'') = Inl TypeError"
  by code_simp

end
